theory Spec2Isabelle
  imports Main "HOL-Library.AList" "HOL-Library.Sublist"
begin

text \<open>
  The Worker that fronts the gateway (\<open>src/index.ts\<close>, \<open>src/gateway/env.ts\<close>) and the
  script that starts the gateway inside the container, as functions: what a handler
  computes from a request, the environment and the answers of the sandbox; what the relay
  does with a frame or an event; what the script's restore step does to the files; and what
  the script's config step does to the provider settings.
\<close>

section \<open>Strings and truthiness as the TypeScript and the Node script use them\<close>

text \<open>
  Environment bindings (\<open>MoltbotEnv\<close> in the Worker, \<open>process.env\<close> in the container)
  are optional strings, read by name. A binding that is \<open>undefined\<close> is \<open>None\<close>.
\<close>

type_synonym env = "string \<rightharpoonup> string"

text \<open>
  JavaScript truthiness of an optional string (\<open>if (env.X)\<close>, \<open>!env.X\<close>, \<open>a || b\<close>):
  \<open>undefined\<close> and the empty string are falsy, every other string is truthy.
\<close>

definition truthy :: "string option \<Rightarrow> bool" where
  "truthy v = (case v of None \<Rightarrow> False | Some s \<Rightarrow> s \<noteq> [])"

text \<open>\<open>a || b\<close> on optional strings.\<close>

definition or_else :: "string option \<Rightarrow> string option \<Rightarrow> string option" where
  "or_else a b = (if truthy a then a else b)"

text \<open>\<open>s.includes(p)\<close>: \<open>p\<close> occurs in \<open>s\<close> as a contiguous run of characters.\<close>

fun str_includes :: "string \<Rightarrow> string \<Rightarrow> bool" where
  "str_includes [] p = (p = [])"
| "str_includes (c # s) p = (prefix p (c # s) \<or> str_includes s p)"

text \<open>\<open>s.startsWith(p)\<close> and \<open>s.endsWith(p)\<close>.\<close>

definition startsWith :: "string \<Rightarrow> string \<Rightarrow> bool" where
  "startsWith s p = prefix p s"

definition endsWith :: "string \<Rightarrow> string \<Rightarrow> bool" where
  "endsWith s p = suffix p s"

section \<open>Worker: \<open>buildEnvVars\<close> (src/gateway/env.ts)\<close>

text \<open>\<open>url.replace(/\/+$/, '')\<close>: the string without its trailing slashes.\<close>

definition strip_trailing_slashes :: "string \<Rightarrow> string" where
  "strip_trailing_slashes s = rev (dropWhile (\<lambda>c. c = CHR ''/'') (rev s))"

text \<open>\<open>if (v) envVars.K = v\<close>.\<close>

definition set_if :: "string option \<Rightarrow> string \<Rightarrow> (string \<rightharpoonup> string) \<Rightarrow> (string \<rightharpoonup> string)" where
  "set_if v k m = (if truthy v then m(k := v) else m)"

text \<open>\<open>env.AI_GATEWAY_BASE_URL?.replace(/\/+$/, '')\<close>.\<close>

definition normalizedBaseUrl :: "env \<Rightarrow> string option" where
  "normalizedBaseUrl env = map_option strip_trailing_slashes (env ''AI_GATEWAY_BASE_URL'')"

text \<open>
  \<open>normalizedBaseUrl?.endsWith('/openai') || normalizedBaseUrl?.endsWith('/compat')\<close>,
  as the condition of \<open>if (isOpenAIGateway)\<close> reads it.
\<close>

definition isOpenAIGateway :: "env \<Rightarrow> bool" where
  "isOpenAIGateway env =
     (case normalizedBaseUrl env of
        None \<Rightarrow> False
      | Some u \<Rightarrow> endsWith u ''/openai'' \<or> endsWith u ''/compat'')"

text \<open>The native Cloudflare AI Gateway block (env.ts lines 21-47).\<close>

definition native_vars :: "env \<Rightarrow> (string \<rightharpoonup> string) \<Rightarrow> (string \<rightharpoonup> string)" where
  "native_vars env envVars =
     (let e1 = set_if (env ''CF_ACCOUNT_ID'') ''CLOUDFLARE_AI_GATEWAY_ACCOUNT_ID''
                 (set_if (env ''CF_ACCOUNT_ID'') ''CF_ACCOUNT_ID'' envVars);
          e2 = set_if (env ''AI_GATEWAY_ID'') ''CLOUDFLARE_AI_GATEWAY_GATEWAY_ID'' e1;
          e3 = set_if (env ''AI_GATEWAY_API_KEY'') ''AI_GATEWAY_API_KEY''
                 (set_if (env ''AI_GATEWAY_API_KEY'') ''CLOUDFLARE_AI_GATEWAY_API_KEY'' e2);
          e4 = set_if (env ''CF_AIG_AUTHORIZATION'') ''CF_AIG_AUTHORIZATION'' e3
      in set_if (env ''DEFAULT_MODEL'') ''DEFAULT_MODEL'' e4)"

text \<open>The legacy AI Gateway block (env.ts lines 54-66).\<close>

definition legacy_vars :: "env \<Rightarrow> (string \<rightharpoonup> string) \<Rightarrow> (string \<rightharpoonup> string)" where
  "legacy_vars env envVars =
     (if truthy (normalizedBaseUrl env) then
        (let e1 = envVars(''AI_GATEWAY_BASE_URL'' := normalizedBaseUrl env) in
         if isOpenAIGateway env then
           set_if (env ''AI_GATEWAY_API_KEY'') ''OPENAI_API_KEY''
             (e1(''OPENAI_BASE_URL'' := normalizedBaseUrl env))
         else
           set_if (env ''AI_GATEWAY_API_KEY'') ''ANTHROPIC_API_KEY''
             (e1(''ANTHROPIC_BASE_URL'' := normalizedBaseUrl env)))
      else envVars)"

text \<open>The direct provider keys (env.ts lines 72-80): each is a fallback.\<close>

definition direct_vars :: "env \<Rightarrow> (string \<rightharpoonup> string) \<Rightarrow> (string \<rightharpoonup> string)" where
  "direct_vars env envVars =
     (let e1 = (if \<not> truthy (envVars ''ANTHROPIC_API_KEY'') \<and> truthy (env ''ANTHROPIC_API_KEY'')
                then envVars(''ANTHROPIC_API_KEY'' := env ''ANTHROPIC_API_KEY'') else envVars);
          e2 = (if \<not> truthy (e1 ''OPENAI_API_KEY'') \<and> truthy (env ''OPENAI_API_KEY'')
                then e1(''OPENAI_API_KEY'' := env ''OPENAI_API_KEY'') else e1)
      in if truthy (env ''ANTHROPIC_BASE_URL'') \<and> \<not> truthy (e2 ''ANTHROPIC_BASE_URL'')
         then e2(''ANTHROPIC_BASE_URL'' := env ''ANTHROPIC_BASE_URL'') else e2)"

text \<open>Gateway token, dev mode, bind mode, channels, CDP and worker URL (env.ts lines 87-107).\<close>

definition channel_vars :: "env \<Rightarrow> (string \<rightharpoonup> string) \<Rightarrow> (string \<rightharpoonup> string)" where
  "channel_vars env envVars =
     (let e1 = set_if (env ''MOLTBOT_GATEWAY_TOKEN'') ''CLAWDBOT_GATEWAY_TOKEN'' envVars;
          e2 = set_if (env ''DEV_MODE'') ''CLAWDBOT_DEV_MODE'' e1;
          e3 = set_if (env ''CLAWDBOT_BIND_MODE'') ''CLAWDBOT_BIND_MODE'' e2;
          e4 = set_if (env ''TELEGRAM_BOT_TOKEN'') ''TELEGRAM_BOT_TOKEN'' e3;
          e5 = set_if (env ''TELEGRAM_DM_POLICY'') ''TELEGRAM_DM_POLICY'' e4;
          e6 = set_if (env ''DISCORD_BOT_TOKEN'') ''DISCORD_BOT_TOKEN'' e5;
          e7 = set_if (env ''DISCORD_DM_POLICY'') ''DISCORD_DM_POLICY'' e6;
          e8 = set_if (env ''SLACK_BOT_TOKEN'') ''SLACK_BOT_TOKEN'' e7;
          e9 = set_if (env ''SLACK_APP_TOKEN'') ''SLACK_APP_TOKEN'' e8;
          e10 = set_if (env ''CDP_SECRET'') ''CDP_SECRET'' e9
      in set_if (env ''WORKER_URL'') ''WORKER_URL'' e10)"

definition buildEnvVars :: "env \<Rightarrow> (string \<rightharpoonup> string)" where
  "buildEnvVars env = channel_vars env (direct_vars env (legacy_vars env (native_vars env Map.empty)))"

section \<open>JSON values\<close>

text \<open>
  The values \<open>JSON.parse\<close> returns and \<open>JSON.stringify\<close> prints. An object is an
  association list: the order of its members is the order \<open>JSON.stringify\<close> prints.
\<close>

datatype json =
    JNull
  | JBool bool
  | JNum int
  | JStr string
  | JArr "json list"
  | JObj "(string \<times> json) list"

subsection \<open>A reference reader and printer for concrete frames\<close>

text \<open>
  \<open>JSON.parse\<close> and \<open>JSON.stringify\<close> belong to the JavaScript runtime, not to this
  repository, so the relay below takes them as parameters and its theorems hold for whatever
  they compute. To run the relay on a concrete frame, \<open>json_parse\<close> and \<open>json_stringify\<close>
  implement both on a fragment of JSON: integers of at most 15 digits as the only numbers,
  \<open>\u\<close> escapes below 0x80 only, and no member name made of digits alone (JavaScript
  reorders those). \<open>json_parse\<close> gives \<open>None\<close> on a text that is not JSON and on a text that
  leaves the fragment.
\<close>

definition is_ws :: "char \<Rightarrow> bool" where
  "is_ws c = (c = CHR '' '' \<or> c = CHR 0x09 \<or> c = CHR 0x0A \<or> c = CHR 0x0D)"

definition skip_ws :: "string \<Rightarrow> string" where
  "skip_ws s = dropWhile is_ws s"

definition is_digit :: "char \<Rightarrow> bool" where
  "is_digit c = (48 \<le> (of_char c :: nat) \<and> (of_char c :: nat) \<le> 57)"

definition digit_val :: "char \<Rightarrow> nat" where
  "digit_val c = of_char c - 48"

definition hex_val :: "char \<Rightarrow> nat option" where
  "hex_val c =
     (let n = (of_char c :: nat) in
      if 48 \<le> n \<and> n \<le> 57 then Some (n - 48)
      else if 97 \<le> n \<and> n \<le> 102 then Some (n - 87)
      else if 65 \<le> n \<and> n \<le> 70 then Some (n - 55)
      else None)"

definition unescape :: "char \<Rightarrow> char option" where
  "unescape e =
     (if e = CHR 0x22 then Some (CHR 0x22)
      else if e = CHR 0x5C then Some (CHR 0x5C)
      else if e = CHR ''/'' then Some (CHR ''/'')
      else if e = CHR ''b'' then Some (CHR 0x08)
      else if e = CHR ''f'' then Some (CHR 0x0C)
      else if e = CHR ''n'' then Some (CHR 0x0A)
      else if e = CHR ''r'' then Some (CHR 0x0D)
      else if e = CHR ''t'' then Some (CHR 0x09)
      else None)"

text \<open>The rest of a string literal after its opening quote, and what follows it.\<close>

fun parse_str :: "string \<Rightarrow> (string \<times> string) option" where
  "parse_str [] = None"
| "parse_str (c # cs) =
     (if c = CHR 0x22 then Some ([], cs)
      else if c = CHR 0x5C then
        (case cs of
           [] \<Rightarrow> None
         | e # r \<Rightarrow>
             if e = CHR ''u'' then
               (case r of
                  a # b # x # y # r' \<Rightarrow>
                    (case (hex_val a, hex_val b, hex_val x, hex_val y) of
                       (Some 0, Some 0, Some h, Some l) \<Rightarrow>
                         if h < 8 then map_option (apfst ((#) (char_of (16 * h + l)))) (parse_str r')
                         else None
                     | _ \<Rightarrow> None)
                | _ \<Rightarrow> None)
             else
               (case unescape e of
                  None \<Rightarrow> None
                | Some ch \<Rightarrow> map_option (apfst ((#) ch)) (parse_str r)))
      else if (of_char c :: nat) < 32 then None
      else map_option (apfst ((#) c)) (parse_str cs))"

fun parse_digits :: "string \<Rightarrow> int \<Rightarrow> int \<times> string" where
  "parse_digits [] acc = (acc, [])"
| "parse_digits (c # cs) acc =
     (if is_digit c then parse_digits cs (10 * acc + int (digit_val c)) else (acc, c # cs))"

definition parse_int :: "string \<Rightarrow> (json \<times> string) option" where
  "parse_int s =
     (let (neg, ds) =
        (case s of [] \<Rightarrow> (False, s) | c # cs \<Rightarrow> if c = CHR ''-'' then (True, cs) else (False, s))
      in
      case ds of
        [] \<Rightarrow> None
      | d # r \<Rightarrow>
          if \<not> is_digit d then None
          else if d = CHR ''0'' \<and> (case r of [] \<Rightarrow> False | d' # _ \<Rightarrow> is_digit d') then None
          else
            (let (n, rest) = parse_digits ds 0 in
             if (case rest of [] \<Rightarrow> False
                 | x # _ \<Rightarrow> x = CHR ''.'' \<or> x = CHR ''e'' \<or> x = CHR ''E'') then None
             else if length ds - length rest > 15 then None
             else Some (JNum (if neg then - n else n), rest)))"

definition index_like :: "string \<Rightarrow> bool" where
  "index_like k = (k \<noteq> [] \<and> list_all is_digit k)"

text \<open>
  Recursive descent, with the depth of the recursion bounded by the first argument. A
  member name that occurs twice keeps its first place and its last value, as in JavaScript.
\<close>

fun parse_value :: "nat \<Rightarrow> string \<Rightarrow> (json \<times> string) option"
  and parse_elements :: "nat \<Rightarrow> string \<Rightarrow> (json list \<times> string) option"
  and parse_members :: "nat \<Rightarrow> string \<Rightarrow> ((string \<times> json) list \<times> string) option"
where
  "parse_value 0 s = None"
| "parse_value (Suc n) s =
     (case skip_ws s of
        [] \<Rightarrow> None
      | c # cs \<Rightarrow>
          if c = CHR ''{'' then
            (case skip_ws cs of
               [] \<Rightarrow> None
             | d # r \<Rightarrow>
                 if d = CHR ''}'' then Some (JObj [], r)
                 else map_option (apfst JObj) (parse_members n cs))
          else if c = CHR ''['' then
            (case skip_ws cs of
               [] \<Rightarrow> None
             | d # r \<Rightarrow>
                 if d = CHR '']'' then Some (JArr [], r)
                 else map_option (apfst JArr) (parse_elements n cs))
          else if c = CHR 0x22 then map_option (apfst JStr) (parse_str cs)
          else if prefix ''true'' (c # cs) then Some (JBool True, drop 4 (c # cs))
          else if prefix ''false'' (c # cs) then Some (JBool False, drop 5 (c # cs))
          else if prefix ''null'' (c # cs) then Some (JNull, drop 4 (c # cs))
          else parse_int (c # cs))"
| "parse_elements 0 s = None"
| "parse_elements (Suc n) s =
     (case parse_value n s of
        None \<Rightarrow> None
      | Some (v, r) \<Rightarrow>
          (case skip_ws r of
             [] \<Rightarrow> None
           | d # r' \<Rightarrow>
               if d = CHR '','' then map_option (apfst ((#) v)) (parse_elements n r')
               else if d = CHR '']'' then Some ([v], r')
               else None))"
| "parse_members 0 s = None"
| "parse_members (Suc n) s =
     (case skip_ws s of
        [] \<Rightarrow> None
      | q # cs \<Rightarrow>
          if q \<noteq> CHR 0x22 then None
          else
            (case parse_str cs of
               None \<Rightarrow> None
             | Some (k, r1) \<Rightarrow>
                 (case skip_ws r1 of
                    [] \<Rightarrow> None
                  | col # r2 \<Rightarrow>
                      if col \<noteq> CHR '':'' \<or> index_like k then None
                      else
                        (case parse_value n r2 of
                           None \<Rightarrow> None
                         | Some (v, r3) \<Rightarrow>
                             (case skip_ws r3 of
                                [] \<Rightarrow> None
                              | d # r4 \<Rightarrow>
                                  if d = CHR '','' then
                                    map_option
                                      (apfst (\<lambda>ms. (k, case map_of ms k of None \<Rightarrow> v | Some v' \<Rightarrow> v')
                                                     # AList.delete k ms))
                                      (parse_members n r4)
                                  else if d = CHR ''}'' then Some ([(k, v)], r4)
                                  else None)))))"

definition json_parse :: "string \<Rightarrow> json option" where
  "json_parse s =
     (case parse_value (length s) s of
        None \<Rightarrow> None
      | Some (v, r) \<Rightarrow> if skip_ws r = [] then Some v else None)"

definition hex_digit :: "nat \<Rightarrow> char" where
  "hex_digit n = (if n < 10 then char_of (48 + n) else char_of (87 + n))"

definition quote_char :: "char \<Rightarrow> string" where
  "quote_char c =
     (if c = CHR 0x22 then [CHR 0x5C, CHR 0x22]
      else if c = CHR 0x5C then [CHR 0x5C, CHR 0x5C]
      else if c = CHR 0x08 then [CHR 0x5C, CHR ''b'']
      else if c = CHR 0x0C then [CHR 0x5C, CHR ''f'']
      else if c = CHR 0x0A then [CHR 0x5C, CHR ''n'']
      else if c = CHR 0x0D then [CHR 0x5C, CHR ''r'']
      else if c = CHR 0x09 then [CHR 0x5C, CHR ''t'']
      else if (of_char c :: nat) < 32 then
        [CHR 0x5C, CHR ''u'', CHR ''0'', CHR ''0'',
         hex_digit ((of_char c :: nat) div 16), hex_digit ((of_char c :: nat) mod 16)]
      else [c])"

definition quote_str :: "string \<Rightarrow> string" where
  "quote_str s = [CHR 0x22] @ concat (map quote_char s) @ [CHR 0x22]"

fun show_nat :: "nat \<Rightarrow> string" where
  "show_nat n =
     (if n < 10 then [char_of (48 + n)] else show_nat (n div 10) @ [char_of (48 + n mod 10)])"

definition show_int :: "int \<Rightarrow> string" where
  "show_int i = (if i < 0 then CHR ''-'' # show_nat (nat (- i)) else show_nat (nat i))"

text \<open>\<open>xs.join(sep)\<close>.\<close>

fun str_join :: "string \<Rightarrow> string list \<Rightarrow> string" where
  "str_join sep [] = []"
| "str_join sep [x] = x"
| "str_join sep (x # y # xs) = x @ sep @ str_join sep (y # xs)"

fun json_stringify :: "json \<Rightarrow> string" where
  "json_stringify JNull = ''null''"
| "json_stringify (JBool b) = (if b then ''true'' else ''false'')"
| "json_stringify (JNum n) = show_int n"
| "json_stringify (JStr s) = quote_str s"
| "json_stringify (JArr xs) = ''['' @ str_join '','' (map json_stringify xs) @ '']''"
| "json_stringify (JObj kvs) =
     ''{'' @ str_join '','' (map (\<lambda>(k, v). quote_str k @ '':'' @ json_stringify v) kvs) @ ''}''"

section \<open>Worker: request handling (src/index.ts)\<close>

subsection \<open>\<open>transformErrorMessage\<close>\<close>

definition transformErrorMessage :: "string \<Rightarrow> string \<Rightarrow> string" where
  "transformErrorMessage message host =
     (if str_includes message ''gateway token missing''
         \<or> str_includes message ''gateway token mismatch''
      then ''Invalid or missing token. Visit https://'' @ host @ ''?token={REPLACE_WITH_YOUR_TOKEN}''
      else if str_includes message ''pairing required''
      then ''Pairing required. Visit https://'' @ host @ ''/_admin/''
      else message)"

subsection \<open>\<open>validateRequiredEnv\<close>\<close>

definition hasNativeAIGateway :: "env \<Rightarrow> bool" where
  "hasNativeAIGateway env =
     (truthy (env ''CF_ACCOUNT_ID'')
      \<and> (truthy (env ''AI_GATEWAY_ID'') \<or> truthy (env ''AI_GATEWAY_API_KEY'')))"

definition hasLegacyAIGateway :: "env \<Rightarrow> bool" where
  "hasLegacyAIGateway env =
     (truthy (env ''AI_GATEWAY_API_KEY'') \<and> truthy (env ''AI_GATEWAY_BASE_URL''))"

definition hasDirectAnthropic :: "env \<Rightarrow> bool" where
  "hasDirectAnthropic env = truthy (env ''ANTHROPIC_API_KEY'')"

definition ai_provider_hint :: string where
  "ai_provider_hint =
     ''AI provider configuration: Set CF_ACCOUNT_ID + AI_GATEWAY_API_KEY (recommended), ''
     @ ''or AI_GATEWAY_BASE_URL + AI_GATEWAY_API_KEY (legacy), or ANTHROPIC_API_KEY (direct)''"

definition validateRequiredEnv :: "env \<Rightarrow> string list" where
  "validateRequiredEnv env =
     (if \<not> truthy (env ''MOLTBOT_GATEWAY_TOKEN'') then [''MOLTBOT_GATEWAY_TOKEN''] else [])
     @ (if \<not> truthy (env ''CF_ACCESS_TEAM_DOMAIN'') then [''CF_ACCESS_TEAM_DOMAIN''] else [])
     @ (if \<not> truthy (env ''CF_ACCESS_AUD'') then [''CF_ACCESS_AUD''] else [])
     @ (if \<not> hasNativeAIGateway env \<and> \<not> hasLegacyAIGateway env \<and> \<not> hasDirectAnthropic env
        then [ai_provider_hint] else [])"

subsection \<open>\<open>String.prototype.replace\<close> with a string pattern\<close>

text \<open>The text before and after the first occurrence of \<open>p\<close> in \<open>s\<close>.\<close>

fun find_first :: "string \<Rightarrow> string \<Rightarrow> (string \<times> string) option" where
  "find_first p [] = (if p = [] then Some ([], []) else None)"
| "find_first p (c # s) =
     (if prefix p (c # s) then Some ([], drop (length p) (c # s))
      else map_option (apfst ((#) c)) (find_first p s))"

text \<open>
  The replacement text with its \<open>$\<close> patterns expanded: \<open>$$\<close> is a dollar sign, \<open>$&\<close> the
  matched text, \<open>$`\<close> the text before the match and \<open>$'\<close> the text after it. A string
  pattern has no capture groups, so every other \<open>$\<close> stands for itself.
\<close>

fun expand_replacement :: "string \<Rightarrow> string \<Rightarrow> string \<Rightarrow> string \<Rightarrow> string" where
  "expand_replacement m b a [] = []"
| "expand_replacement m b a (c # r) =
     (if c = CHR ''$'' then
        (case r of
           [] \<Rightarrow> [c]
         | d # r' \<Rightarrow>
             if d = CHR ''$'' then CHR ''$'' # expand_replacement m b a r'
             else if d = CHR ''&'' then m @ expand_replacement m b a r'
             else if d = CHR 0x60 then b @ expand_replacement m b a r'
             else if d = CHR 0x27 then a @ expand_replacement m b a r'
             else c # expand_replacement m b a r)
      else c # expand_replacement m b a r)"

definition js_replace :: "string \<Rightarrow> string \<Rightarrow> string \<Rightarrow> string" where
  "js_replace s p replacement =
     (case find_first p s of
        None \<Rightarrow> s
      | Some (b, a) \<Rightarrow> b @ expand_replacement p b a replacement @ a)"

subsection \<open>Requests and replies\<close>

text \<open>
  What the handlers read of a request: the path of its URL, the host of its URL, and the
  \<open>Accept\<close> and \<open>Upgrade\<close> headers (\<open>None\<close> when the header is absent).
\<close>

record request =
  pathname :: string
  url_host :: string
  accept :: "string option"
  upgrade :: "string option"

text \<open>
  The fields of a \<open>Response\<close> the proxy reads and writes. Header names are compared without
  regard to case. \<open>webSocket\<close> says whether the response carries an upgraded socket.
\<close>

record response =
  resp_body :: "string option"
  resp_status :: nat
  resp_statusText :: string
  resp_headers :: "(string \<times> string) list"
  resp_webSocket :: bool

text \<open>
  What a handler returns: \<open>c.html(html, status)\<close>, \<open>c.json(value, status)\<close> or
  \<open>new Response(body, init)\<close>.
\<close>

datatype reply = Html string nat | Json json nat | NewResponse response

definition to_lower :: "char \<Rightarrow> char" where
  "to_lower c =
     (if 65 \<le> (of_char c :: nat) \<and> (of_char c :: nat) \<le> 90 then char_of ((of_char c :: nat) + 32)
      else c)"

definition toLowerCase :: "string \<Rightarrow> string" where
  "toLowerCase s = map to_lower s"

text \<open>\<open>header('Accept')?.includes('text/html')\<close>, as a condition.\<close>

definition acceptsHtml :: "request \<Rightarrow> bool" where
  "acceptsHtml req = (case accept req of None \<Rightarrow> False | Some a \<Rightarrow> str_includes a ''text/html'')"

text \<open>\<open>headers.get('Upgrade')?.toLowerCase() === 'websocket'\<close>.\<close>

definition isWebSocketRequest :: "request \<Rightarrow> bool" where
  "isWebSocketRequest req =
     (case upgrade req of None \<Rightarrow> False | Some u \<Rightarrow> toLowerCase u = ''websocket'')"

subsection \<open>The middleware that validates the environment\<close>

text \<open>
  \<open>None\<close> is \<open>next()\<close>: the request goes on to the next handler. The page
  \<open>configErrorHtml\<close> is an asset of the repository and a parameter here.
\<close>

definition env_validation :: "string \<Rightarrow> env \<Rightarrow> request \<Rightarrow> reply option" where
  "env_validation configErrorHtml env req =
     (if startsWith (pathname req) ''/debug'' then None
      else if env ''DEV_MODE'' = Some ''true'' then None
      else
        (let missingVars = validateRequiredEnv env in
         if length missingVars > 0 then
           (if acceptsHtml req then
              Some (Html (js_replace configErrorHtml ''{{MISSING_VARS}}'' (str_join '', '' missingVars)) 503)
            else
              Some (Json (JObj
                [(''error'', JStr ''Configuration error''),
                 (''message'', JStr ''Required environment variables are not configured''),
                 (''missing'', JArr (map JStr missingVars)),
                 (''hint'', JStr ''Set these using: wrangler secret put <VARIABLE_NAME>'')]) 503))
         else None))"

subsection \<open>The catch-all proxy handler\<close>

text \<open>
  \<open>findExistingMoltbotProcess\<close> and \<open>ensureMoltbotGateway\<close> are imported from
  \<open>./gateway\<close>; the handler is modelled for every result they can give. A process found has
  a status; starting the gateway either succeeds or throws, which the handler catches.
  \<open>sandbox.containerFetch\<close> is taken to return a response.
\<close>

record process_info =
  proc_id :: string
  proc_status :: string

datatype thrown = ErrorObject string | OtherValue

datatype start_result = Started | StartFailed thrown

text \<open>The two sockets of a relayed session, by the names the handler gives them.\<close>

datatype leg = ServerWs | ContainerWs

datatype frame = Text string | Binary "nat list"

text \<open>
  What the handler does besides computing its reply. \<open>console.log\<close> lines are left out;
  \<open>console.error\<close> lines are kept by their tag.
\<close>

datatype effect =
    FindProcess
  | StartGateway
  | ContainerFetch
  | ConsoleError string
  | Accept leg
  | Send leg frame
  | Close leg nat string

text \<open>
  The reply, the effects the handler performed and awaited before replying, and the tasks it
  handed to \<open>executionCtx.waitUntil\<close>, each with the effects it performs.
\<close>

record outcome =
  reply_of :: reply
  awaited :: "effect list"
  background :: "effect list list"

text \<open>
  \<open>ensureMoltbotGateway(sandbox, c.env).catch(err => console.error(...))\<close>: the start, and
  the log line when it fails. The promise never rejects.
\<close>

definition background_start :: "start_result \<Rightarrow> effect list" where
  "background_start r =
     (case r of
        Started \<Rightarrow> [StartGateway]
      | StartFailed err \<Rightarrow> [StartGateway, ConsoleError ''[PROXY] Background gateway start failed:''])"

definition isGatewayReady :: "process_info option \<Rightarrow> bool" where
  "isGatewayReady existingProcess =
     (case existingProcess of None \<Rightarrow> False | Some p \<Rightarrow> proc_status p = ''running'')"

text \<open>\<open>headers.set(name, value)\<close> of the Fetch standard.\<close>

fun headers_set :: "string \<Rightarrow> string \<Rightarrow> (string \<times> string) list \<Rightarrow> (string \<times> string) list" where
  "headers_set name v [] = [(name, v)]"
| "headers_set name v ((n, x) # hs) =
     (if toLowerCase n = toLowerCase name
      then (n, v) # filter (\<lambda>(n', _). toLowerCase n' \<noteq> toLowerCase name) hs
      else (n, x) # headers_set name v hs)"

text \<open>
  Reading a header list: the values of a header in order, what \<open>headers.get(name)\<close>
  returns (the values joined by a comma and a space, or \<open>null\<close>), and the names present.
  Copying a \<open>Headers\<close> object (\<open>new Headers(h)\<close>, \<open>new Response(body, {headers})\<close>) may sort
  and combine its entries; \<open>headers_get\<close> and \<open>header_names\<close> do not depend on that.
\<close>

definition headers_values :: "(string \<times> string) list \<Rightarrow> string \<Rightarrow> string list" where
  "headers_values hs name = map snd (filter (\<lambda>(n, _). toLowerCase n = toLowerCase name) hs)"

definition headers_get :: "(string \<times> string) list \<Rightarrow> string \<Rightarrow> string option" where
  "headers_get hs name =
     (case headers_values hs name of [] \<Rightarrow> None | v # vs \<Rightarrow> Some (str_join '', '' (v # vs)))"

definition header_names :: "(string \<times> string) list \<Rightarrow> string set" where
  "header_names hs = (\<lambda>(n, v). toLowerCase n) ` set hs"

text \<open>
  The handler, given the assets \<open>loadingPageHtml\<close> and \<open>configErrorHtml\<close>, the environment,
  the request, the process \<open>findExistingMoltbotProcess\<close> found, the result of
  \<open>ensureMoltbotGateway\<close> and the response of \<open>sandbox.containerFetch\<close>.
\<close>

definition proxy_handler ::
  "string \<Rightarrow> string \<Rightarrow> env \<Rightarrow> request \<Rightarrow> process_info option \<Rightarrow> start_result \<Rightarrow> response \<Rightarrow> outcome"
where
  "proxy_handler loadingPageHtml configErrorHtml env req existingProcess started httpResponse =
     (if \<not> isGatewayReady existingProcess \<and> \<not> isWebSocketRequest req \<and> acceptsHtml req then
        \<lparr>reply_of = Html loadingPageHtml 200,
         awaited = [FindProcess],
         background = [background_start started]\<rparr>
      else
        (case started of
           StartFailed err \<Rightarrow>
             (let errorMessage = (case err of ErrorObject m \<Rightarrow> m | OtherValue \<Rightarrow> ''Unknown error'');
                  hint =
                    (if \<not> (truthy (env ''AI_GATEWAY_API_KEY'') \<or> truthy (env ''ANTHROPIC_API_KEY''))
                     then ''No API key set. Run: wrangler secret put AI_GATEWAY_API_KEY (or ANTHROPIC_API_KEY)''
                     else ''Check worker logs with: wrangler tail'')
              in
              \<lparr>reply_of =
                 (if acceptsHtml req
                  then Html (js_replace configErrorHtml ''{{MISSING_VARS}}'' errorMessage) 500
                  else Json (JObj [(''error'', JStr ''Failed to start Moltbot''),
                                   (''details'', JStr errorMessage),
                                   (''hint'', JStr hint)]) 500),
               awaited = [FindProcess, StartGateway, ConsoleError ''[PROXY] Failed to start Moltbot:''],
               background = []\<rparr>)
         | Started \<Rightarrow>
             if isWebSocketRequest req then
               (if \<not> resp_webSocket httpResponse then
                  \<lparr>reply_of = NewResponse
                     \<lparr>resp_body = Some ''WebSocket connection failed'', resp_status = 500,
                      resp_statusText = [], resp_headers = [], resp_webSocket = False\<rparr>,
                   awaited = [FindProcess, StartGateway, Accept ServerWs, ContainerFetch,
                              ConsoleError ''[WS] Container did not return WebSocket'',
                              Close ServerWs 1011 ''Container WebSocket connection failed''],
                   background = []\<rparr>
                else
                  \<lparr>reply_of = NewResponse
                     \<lparr>resp_body = None, resp_status = 101,
                      resp_statusText = [], resp_headers = [], resp_webSocket = True\<rparr>,
                   awaited = [FindProcess, StartGateway, Accept ServerWs, ContainerFetch,
                              Accept ContainerWs],
                   background = []\<rparr>)
             else
               \<lparr>reply_of = NewResponse
                  \<lparr>resp_body = resp_body httpResponse,
                   resp_status = resp_status httpResponse,
                   resp_statusText = resp_statusText httpResponse,
                   resp_headers =
                     headers_set ''X-Debug-Path'' (pathname req)
                       (headers_set ''X-Worker-Debug'' ''proxy-to-moltbot'' (resp_headers httpResponse)),
                   resp_webSocket = False\<rparr>,
                awaited = [FindProcess, StartGateway, ContainerFetch],
                background = []\<rparr>))"

subsection \<open>The WebSocket relay\<close>

text \<open>
  The listener on messages of the container socket: the frame it sends to the client.
  \<open>parse\<close> is \<open>JSON.parse\<close> (\<open>None\<close> when it throws) and \<open>stringify\<close> is
  \<open>JSON.stringify\<close>. Reading \<open>.error\<close> of \<open>null\<close> throws inside the inner \<open>try\<close>, and of
  any other value that is not an object it gives \<open>undefined\<close>; either way the frame is
  forwarded as it came.
\<close>

definition container_message ::
  "(string \<Rightarrow> json option) \<Rightarrow> (json \<Rightarrow> string) \<Rightarrow> string \<Rightarrow> frame \<Rightarrow> frame"
where
  "container_message parse stringify host data =
     (case data of
        Binary bytes \<Rightarrow> data
      | Text s \<Rightarrow>
          if str_includes s ''\"error\"'' then
            (case parse s of
               None \<Rightarrow> data
             | Some parsed \<Rightarrow>
                 (case parsed of
                    JObj members \<Rightarrow>
                      (case map_of members ''error'' of
                         Some (JStr message) \<Rightarrow>
                           if message \<noteq> [] then
                             Text (stringify (JObj
                               (AList.update ''error'' (JStr (transformErrorMessage message host))
                                  members)))
                           else data
                       | _ \<Rightarrow> data)
                  | _ \<Rightarrow> data))
          else data)"

datatype ws_event = Message frame | CloseEvent nat string | ErrorEvent

text \<open>
  The six listeners: the calls the relay makes on a socket when an event arrives on a leg,
  in order.
\<close>

fun relay_event ::
  "(string \<Rightarrow> json option) \<Rightarrow> (json \<Rightarrow> string) \<Rightarrow> string \<Rightarrow> leg \<Rightarrow> ws_event \<Rightarrow> effect list"
where
  "relay_event parse stringify host ContainerWs (Message data) =
     [Send ServerWs (container_message parse stringify host data)]"
| "relay_event parse stringify host ServerWs (Message data) = [Send ContainerWs data]"
| "relay_event parse stringify host ServerWs (CloseEvent code reason) =
     [Close ContainerWs code reason]"
| "relay_event parse stringify host ContainerWs (CloseEvent code reason) =
     [Close ServerWs code reason]"
| "relay_event parse stringify host ServerWs ErrorEvent =
     [ConsoleError ''[WS] Client error:'', Close ContainerWs 1011 ''Client error'']"
| "relay_event parse stringify host ContainerWs ErrorEvent =
     [ConsoleError ''[WS] Container error:'', Close ServerWs 1011 ''Container error'']"

text \<open>
  \<open>WebSocket.close(code, reason)\<close> throws when it is given a code that an application may
  not send. The Workers runtime accepts the codes from 1000 to 4999 other than 1004, 1005,
  1006 and 1015, which the protocol reserves: 1005 is the code of a close event whose close
  frame carried no status, 1006 the code of a connection that dropped without a close frame.
  (The rule of the WHATWG standard, 1000 or 3000 to 4999, refuses these codes as well.)
\<close>

definition close_code_accepted :: "nat \<Rightarrow> bool" where
  "close_code_accepted code =
     (1000 \<le> code \<and> code < 5000 \<and> code \<noteq> 1004 \<and> code \<noteq> 1005 \<and> code \<noteq> 1006 \<and> code \<noteq> 1015)"

text \<open>
  The session as the relay sees it: a leg is closed once a close or error event arrived on
  it or a call of \<open>close\<close> on it returned.
\<close>

record relay_state =
  serverWs_open :: bool
  containerWs_open :: bool

definition close_leg :: "leg \<Rightarrow> relay_state \<Rightarrow> relay_state" where
  "close_leg l s =
     (case l of
        ServerWs \<Rightarrow> s\<lparr>serverWs_open := False\<rparr>
      | ContainerWs \<Rightarrow> s\<lparr>containerWs_open := False\<rparr>)"

text \<open>
  One call of a listener on the session, where \<open>accepts\<close> is the rule by which \<open>close\<close> takes
  a code. The close and error listeners call \<open>close\<close> outside any \<open>try\<close> (the message
  listeners wrap \<open>send\<close> in one), and the call is the last statement of its listener: when it
  throws, the listener ends and the socket is left as it was.
\<close>

fun apply_effect :: "(nat \<Rightarrow> bool) \<Rightarrow> effect \<Rightarrow> relay_state \<Rightarrow> relay_state" where
  "apply_effect accepts (Close l code reason) s = (if accepts code then close_leg l s else s)"
| "apply_effect accepts e s = s"

fun event_arrives :: "leg \<Rightarrow> ws_event \<Rightarrow> relay_state \<Rightarrow> relay_state" where
  "event_arrives l (Message data) s = s"
| "event_arrives l (CloseEvent code reason) s = close_leg l s"
| "event_arrives l ErrorEvent s = close_leg l s"

definition relay_step ::
  "(nat \<Rightarrow> bool) \<Rightarrow> (string \<Rightarrow> json option) \<Rightarrow> (json \<Rightarrow> string) \<Rightarrow> string \<Rightarrow> relay_state
     \<Rightarrow> leg \<times> ws_event \<Rightarrow> relay_state"
where
  "relay_step accepts parse stringify host s ev =
     fold (apply_effect accepts) (relay_event parse stringify host (fst ev) (snd ev))
       (event_arrives (fst ev) (snd ev) s)"

definition relay_run ::
  "(nat \<Rightarrow> bool) \<Rightarrow> (string \<Rightarrow> json option) \<Rightarrow> (json \<Rightarrow> string) \<Rightarrow> string
     \<Rightarrow> (leg \<times> ws_event) list \<Rightarrow> relay_state"
where
  "relay_run accepts parse stringify host evs =
     foldl (relay_step accepts parse stringify host)
       \<lparr>serverWs_open = True, containerWs_open = True\<rparr> evs"

section \<open>Container: the startup script\<close>

subsection \<open>Files and directories\<close>

text \<open>
  A file with its contents, or a directory with its entries by name. The script reads and
  writes two directories: \<open>$BACKUP_DIR\<close> (\<open>/data/moltbot\<close>, the mounted R2 bucket) and
  \<open>$CONFIG_DIR\<close> (\<open>/root/.clawdbot\<close>, which \<open>mkdir -p\<close> has created before the restore
  step). A state holds the entries of both; a backup directory that does not exist has none.
\<close>

datatype node = File string | Dir "(string \<times> node) list"

record fs =
  backup :: "(string \<times> node) list"
  config :: "(string \<times> node) list"

text \<open>\<open>[ -f path ]\<close> and \<open>[ -d path ]\<close> on what a lookup found.\<close>

definition is_file :: "node option \<Rightarrow> bool" where
  "is_file n = (case n of Some (File c) \<Rightarrow> True | _ \<Rightarrow> False)"

definition is_dir :: "node option \<Rightarrow> bool" where
  "is_dir n = (case n of Some (Dir es) \<Rightarrow> True | _ \<Rightarrow> False)"

text \<open>The entry \<open>name\<close> of the directory found, if it is a directory.\<close>

definition child :: "node option \<Rightarrow> string \<Rightarrow> node option" where
  "child n name = (case n of Some (Dir es) \<Rightarrow> map_of es name | _ \<Rightarrow> None)"

text \<open>\<open>$(cat file)\<close>: the contents without trailing newlines.\<close>

definition cat_subst :: "string \<Rightarrow> string" where
  "cat_subst c = rev (dropWhile (\<lambda>x. x = CHR 0x0A) (rev c))"

subsection \<open>Integers as \<open>[ a -gt b ]\<close> reads them\<close>

text \<open>
  The shell's \<open>test\<close> reads each operand of \<open>-gt\<close> as a decimal integer: white space, an
  optional sign, at least one digit, then blanks up to the end, with a value that fits 64
  bits. On any other operand it fails with an error, which the script silences, and the
  condition is false.
\<close>

definition is_space :: "char \<Rightarrow> bool" where
  "is_space c = (c = CHR '' '' \<or> (9 \<le> (of_char c :: nat) \<and> (of_char c :: nat) \<le> 13))"

definition is_blank :: "char \<Rightarrow> bool" where
  "is_blank c = (c = CHR '' '' \<or> c = CHR 0x09)"

definition digits_value :: "string \<Rightarrow> int" where
  "digits_value ds = foldl (\<lambda>acc d. 10 * acc + int (digit_val d)) 0 ds"

definition legal_number :: "string \<Rightarrow> int option" where
  "legal_number s =
     (let s1 = dropWhile is_space s;
          neg = (case s1 of [] \<Rightarrow> False | c # r \<Rightarrow> c = CHR ''-'');
          s2 = (case s1 of [] \<Rightarrow> s1 | c # r \<Rightarrow> if c = CHR ''-'' \<or> c = CHR ''+'' then r else s1);
          ds = takeWhile is_digit s2;
          rest = dropWhile is_blank (dropWhile is_digit s2);
          v = (if neg then - digits_value ds else digits_value ds)
      in if ds = [] \<or> rest \<noteq> [] \<or> v < - (2 ^ 63) \<or> v > 2 ^ 63 - 1 then None else Some v)"

text \<open>\<open>[ "$a" -gt "$b" ] 2>/dev/null\<close> as a condition.\<close>

definition test_gt :: "string \<Rightarrow> string \<Rightarrow> bool" where
  "test_gt a b =
     (case (legal_number a, legal_number b) of
        (Some x, Some y) \<Rightarrow> x > y
      | _ \<Rightarrow> False)"

subsection \<open>\<open>should_restore_from_r2\<close>\<close>

text \<open>
  The value of a sync marker: what \<open>-gt\<close> reads in the file's contents, if the marker is a
  file and holds an integer. The script runs as root, so reading a file that exists
  succeeds and the fallback \<open>|| echo "0"\<close> is not taken.
\<close>

definition marker_value :: "node option \<Rightarrow> int option" where
  "marker_value n = (case n of Some (File c) \<Rightarrow> legal_number (cat_subst c) | _ \<Rightarrow> None)"

definition R2_SYNC_FILE :: "fs \<Rightarrow> node option" where
  "R2_SYNC_FILE st = map_of (backup st) ''.last-sync''"

definition LOCAL_SYNC_FILE :: "fs \<Rightarrow> node option" where
  "LOCAL_SYNC_FILE st = map_of (config st) ''.last-sync''"

text \<open>\<open>$BACKUP_DIR/clawdbot/clawdbot.json\<close> and \<open>$CONFIG_FILE\<close>.\<close>

definition R2_CONFIG_FILE :: "fs \<Rightarrow> node option" where
  "R2_CONFIG_FILE st = child (map_of (backup st) ''clawdbot'') ''clawdbot.json''"

definition CONFIG_FILE :: "fs \<Rightarrow> node option" where
  "CONFIG_FILE st = map_of (config st) ''clawdbot.json''"

definition should_restore_from_r2 :: "fs \<Rightarrow> bool" where
  "should_restore_from_r2 st =
     (if \<not> is_file (R2_CONFIG_FILE st) then False
      else if \<not> is_file (CONFIG_FILE st) then True
      else if is_file (R2_SYNC_FILE st) \<and> is_file (LOCAL_SYNC_FILE st) then
        (case (R2_SYNC_FILE st, LOCAL_SYNC_FILE st) of
           (Some (File r2), Some (File local)) \<Rightarrow> test_gt (cat_subst r2) (cat_subst local)
         | _ \<Rightarrow> False)
      else False)"

subsection \<open>\<open>cp -r\<close>\<close>

text \<open>
  A directory is read by name: the names it lists, each once, and the entry a name leads
  to.
\<close>

definition names :: "(string \<times> node) list \<Rightarrow> string list" where
  "names es = remdups (map fst es)"

text \<open>
  \<open>cp -r\<close> of a source node to a name of the destination directory, where \<open>d\<close> is what the
  name leads to there: what it leads to afterwards. A file replaces a file of its name and
  a directory is merged into a directory of its name, entry by entry; entries of the
  destination that the source lacks stay. \<open>cp\<close> refuses to put a file over a directory or a
  directory over a file, reports it and goes on; the script ignores the report
  (\<open>2>/dev/null || true\<close>). \<open>cp_names src ns dst\<close> copies the entries of \<open>src\<close> named in \<open>ns\<close>
  into the directory \<open>dst\<close>.
\<close>

function cp_node :: "node \<Rightarrow> node option \<Rightarrow> node"
  and cp_names :: "(string \<times> node) list \<Rightarrow> string list \<Rightarrow> (string \<times> node) list \<Rightarrow> (string \<times> node) list"
where
  "cp_node (File c) d =
     (case d of
        Some (Dir ds) \<Rightarrow> Dir ds
      | _ \<Rightarrow> File c)"
| "cp_node (Dir es) d =
     (case d of
        Some (File c) \<Rightarrow> File c
      | Some (Dir ds) \<Rightarrow> Dir (cp_names es (names es) ds)
      | None \<Rightarrow> Dir (cp_names es (names es) []))"
| "cp_names src [] dst = dst"
| "cp_names src (n # ns) dst =
     cp_names src ns
       (case map_of src n of
          None \<Rightarrow> dst
        | Some x \<Rightarrow> AList.update n (cp_node x (map_of dst n)) dst)"
  by pat_completeness auto

termination
proof -
  have entry: "size x < size_list (size_prod (\<lambda>a. 0) size) es"
    if "map_of es n = Some x" for es :: "(string \<times> node) list" and n x
    using that by (induction es) (auto split: if_splits)
  show ?thesis
    by (relation "inv_image (less_than <*lex*> less_than)
          (\<lambda>s. case s of
                  Inl (x, d) \<Rightarrow> (size x, 0)
                | Inr (src, ns, dst) \<Rightarrow> (size_list (size_prod (\<lambda>a. 0) size) src, length ns))")
       (auto simp: entry)
qed

text \<open>The names the pattern \<open>*\<close> matches: those that do not start with a dot.\<close>

definition visible :: "string \<Rightarrow> bool" where
  "visible name = (case name of [] \<Rightarrow> True | c # r \<Rightarrow> c \<noteq> CHR ''.'')"

text \<open>
  \<open>cp -r "$src/"* "$dst/"\<close>. When the pattern matches nothing, \<open>cp\<close> is given the pattern
  itself, fails, and nothing is copied.
\<close>

definition cp_glob :: "(string \<times> node) list \<Rightarrow> (string \<times> node) list \<Rightarrow> (string \<times> node) list" where
  "cp_glob src dst = cp_names src (filter visible (names src)) dst"

subsection \<open>The restore step\<close>

datatype sh_error = MkdirFailed

text \<open>The copy of the backed-up config directory (script lines 74-77).\<close>

definition restore_config :: "fs \<Rightarrow> (string \<times> node) list" where
  "restore_config st =
     (case map_of (backup st) ''clawdbot'' of
        Some (Dir es) \<Rightarrow> cp_glob es (config st)
      | _ \<Rightarrow> config st)"

text \<open>
  What \<open>ls -A dir\<close> prints: every name, hidden ones included, each on a line. (\<open>ls\<close> sorts
  the names; whether it prints anything does not depend on their order.)
\<close>

definition ls_A :: "(string \<times> node) list \<Rightarrow> string" where
  "ls_A es = concat (map (\<lambda>name. name @ [CHR 0x0A]) (names es))"

text \<open>
  \<open>[ -d "$BACKUP_DIR/skills" ] && [ "$(ls -A $BACKUP_DIR/skills 2>/dev/null)" ]\<close>: the
  backed-up skills directory exists and its listing is not empty.
\<close>

definition r2_skills_nonempty :: "fs \<Rightarrow> bool" where
  "r2_skills_nonempty st =
     (case map_of (backup st) ''skills'' of
        Some (Dir ss) \<Rightarrow> cat_subst (ls_A ss) \<noteq> []
      | _ \<Rightarrow> False)"

text \<open>
  The copy of the backed-up skills into \<open>$CONFIG_DIR/skills\<close> (script lines 81-82), on the
  config directory \<open>cfg\<close>. \<open>mkdir -p\<close> fails when \<open>skills\<close> is a file there, and under
  \<open>set -e\<close> the script stops.
\<close>

definition restore_skills :: "fs \<Rightarrow> (string \<times> node) list \<Rightarrow> sh_error + (string \<times> node) list" where
  "restore_skills st cfg =
     (case map_of (backup st) ''skills'' of
        Some (Dir ss) \<Rightarrow>
          (case map_of cfg ''skills'' of
             Some (File c) \<Rightarrow> Inl MkdirFailed
           | Some (Dir ds) \<Rightarrow> Inr (AList.update ''skills'' (Dir (cp_glob ss ds)) cfg)
           | None \<Rightarrow> Inr (AList.update ''skills'' (Dir (cp_glob ss [])) cfg))
      | _ \<Rightarrow> Inr cfg)"

text \<open>
  Script lines 70-87: the state after the restore step, or the error that stops the script
  together with the state it stops in. When \<open>mkdir -p\<close> fails, the copy of the config
  directory has been made.
\<close>

definition restore :: "fs \<Rightarrow> (sh_error \<times> fs) + fs" where
  "restore st =
     (if should_restore_from_r2 st then
        (let cfg = restore_config st in
         if r2_skills_nonempty st then
           (case restore_skills st cfg of
              Inl e \<Rightarrow> Inl (e, st\<lparr>config := cfg\<rparr>)
            | Inr cfg' \<Rightarrow> Inr (st\<lparr>config := cfg'\<rparr>))
         else Inr (st\<lparr>config := cfg\<rparr>))
      else Inr st)"

text \<open>The state on disk when the restore step has ended, either way.\<close>

definition disk_after :: "(sh_error \<times> fs) + fs \<Rightarrow> fs" where
  "disk_after r = (case r of Inl (e, st) \<Rightarrow> st | Inr st \<Rightarrow> st)"

subsection \<open>Provider selection in the config projection\<close>

text \<open>
  The part of the config document the provider block (script lines 184-251) reads and
  writes, at the shape the lines before it establish: \<open>models.providers\<close> is an object,
  \<open>agents.defaults.models\<close> is an object or absent, and \<open>agents.defaults.model\<close> is an object
  (line 122 sets it to \<open>{}\<close> when the document lacks it) whose \<open>primary\<close> is any value or
  absent. A document in which \<open>agents.defaults.model\<close> is a string or a number, on which an
  assignment to \<open>primary\<close> is dropped, is not a value of this record. The script writes the
  document back as it stands after the block.
\<close>

record gateway_config =
  providers :: "(string \<times> json) list"
  models :: "(string \<times> json) list option"
  primary :: "json option"

definition accountId :: "env \<Rightarrow> string option" where
  "accountId penv = or_else (penv ''CLOUDFLARE_AI_GATEWAY_ACCOUNT_ID'') (penv ''CF_ACCOUNT_ID'')"

definition apiKey :: "env \<Rightarrow> string option" where
  "apiKey penv = or_else (penv ''CLOUDFLARE_AI_GATEWAY_API_KEY'') (penv ''AI_GATEWAY_API_KEY'')"

text \<open>\<open>v || d\<close> with a default string.\<close>

definition or_default :: "string option \<Rightarrow> string \<Rightarrow> string" where
  "or_default v d = (case v of None \<Rightarrow> d | Some s \<Rightarrow> if s \<noteq> [] then s else d)"

definition gatewayId :: "env \<Rightarrow> string" where
  "gatewayId penv = or_default (penv ''CLOUDFLARE_AI_GATEWAY_GATEWAY_ID'') ''moltbot-gateway''"

text \<open>The branch of the \<open>if\<close> / \<open>else if\<close> / \<open>else\<close> chain that runs.\<close>

datatype provider_choice = NativeGateway | DirectAnthropic | BuiltinDefault

definition choose_provider :: "env \<Rightarrow> provider_choice" where
  "choose_provider penv =
     (if truthy (accountId penv) \<and> truthy (apiKey penv) then NativeGateway
      else if truthy (penv ''ANTHROPIC_API_KEY'') then DirectAnthropic
      else BuiltinDefault)"

text \<open>The entry \<open>config.models.providers['cloudflare-ai-gateway']\<close> of the native branch.\<close>

definition native_provider_entry :: "env \<Rightarrow> json" where
  "native_provider_entry penv =
     JObj ([(''accountId'', JStr (or_default (accountId penv) [])),
            (''gatewayId'', JStr (gatewayId penv)),
            (''apiKey'', JStr (or_default (apiKey penv) []))]
           @ (case penv ''CF_AIG_AUTHORIZATION'' of
                None \<Rightarrow> []
              | Some t \<Rightarrow>
                  if t \<noteq> [] then
                    [(''headers'', JObj [(''cf-aig-authorization'',
                        JStr (if startsWith t ''Bearer '' then t else ''Bearer '' @ t))])]
                  else []))"

definition model_alias :: "string \<Rightarrow> json" where
  "model_alias name = JObj [(''alias'', JStr name)]"

definition native_aliases :: "(string \<times> json) list" where
  "native_aliases =
     [(''cloudflare-ai-gateway/google-ai-studio/gemini-2.0-flash'', model_alias ''Gemini 2.0 Flash''),
      (''cloudflare-ai-gateway/google-ai-studio/gemini-2.5-flash'', model_alias ''Gemini 2.5 Flash''),
      (''cloudflare-ai-gateway/google-ai-studio/gemini-2.5-pro'', model_alias ''Gemini 2.5 Pro''),
      (''cloudflare-ai-gateway/claude-opus-4-5'', model_alias ''Claude Opus 4.5''),
      (''cloudflare-ai-gateway/claude-sonnet-4-5'', model_alias ''Claude Sonnet 4.5''),
      (''cloudflare-ai-gateway/gpt-4o'', model_alias ''GPT-4o''),
      (''cloudflare-ai-gateway/gpt-4o-mini'', model_alias ''GPT-4o Mini'')]"

definition anthropic_aliases :: "(string \<times> json) list" where
  "anthropic_aliases =
     [(''anthropic/claude-opus-4-5-20251101'', model_alias ''Opus 4.5''),
      (''anthropic/claude-sonnet-4-5-20250929'', model_alias ''Sonnet 4.5''),
      (''anthropic/claude-haiku-4-5-20251001'', model_alias ''Haiku 4.5'')]"

text \<open>\<open>models = models || {}\<close> followed by one assignment per alias.\<close>

definition set_aliases :: "(string \<times> json) list \<Rightarrow> (string \<times> json) list option \<Rightarrow> (string \<times> json) list option" where
  "set_aliases aliases ms =
     Some (fold (\<lambda>(k, v). AList.update k v) aliases (case ms of None \<Rightarrow> [] | Some m \<Rightarrow> m))"

definition configure_providers :: "env \<Rightarrow> gateway_config \<Rightarrow> gateway_config" where
  "configure_providers penv cfg =
     (case choose_provider penv of
        NativeGateway \<Rightarrow>
          cfg\<lparr>providers :=
                AList.update ''cloudflare-ai-gateway'' (native_provider_entry penv)
                  (AList.delete ''openai'' (AList.delete ''anthropic'' (providers cfg))),
              models := set_aliases native_aliases (models cfg),
              primary := Some (JStr (or_default (penv ''DEFAULT_MODEL'')
                           ''cloudflare-ai-gateway/google-ai-studio/gemini-2.5-flash''))\<rparr>
      | DirectAnthropic \<Rightarrow>
          cfg\<lparr>models := set_aliases anthropic_aliases (models cfg),
              primary := Some (JStr ''anthropic/claude-opus-4-5-20251101'')\<rparr>
      | BuiltinDefault \<Rightarrow>
          cfg\<lparr>primary := Some (JStr ''anthropic/claude-opus-4-5'')\<rparr>)"

section \<open>Concrete inputs\<close>

text \<open>States, environments and requests on which the theorems below are instantiated.\<close>

definition fs_no_backup :: fs where
  "fs_no_backup =
     \<lparr>backup = [],
      config = [(''clawdbot.json'', File ''{}''), (''.last-sync'', File ''1700000000'')]\<rparr>"

definition fs_no_local :: fs where
  "fs_no_local =
     \<lparr>backup = [(''clawdbot'', Dir [(''clawdbot.json'', File ''{\"a\":1}'')]),
                (''.last-sync'', File ''5'')],
      config = [(''.last-sync'', File ''9'')]\<rparr>"

definition fs_remote_newer :: fs where
  "fs_remote_newer =
     \<lparr>backup = [(''clawdbot'', Dir [(''clawdbot.json'', File ''{\"a\":1}'')]),
                (''.last-sync'', File (''1700000100'' @ [CHR 0x0A]))],
      config = [(''clawdbot.json'', File ''{}''),
                (''.last-sync'', File (''1700000000'' @ [CHR 0x0A]))]\<rparr>"

definition fs_same_age :: fs where
  "fs_same_age =
     \<lparr>backup = [(''clawdbot'', Dir [(''clawdbot.json'', File ''{\"a\":1}'')]),
                (''.last-sync'', File (''1700000000'' @ [CHR 0x0A]))],
      config = [(''clawdbot.json'', File ''{}''),
                (''.last-sync'', File (''1700000000'' @ [CHR 0x0A]))]\<rparr>"

definition fs_skills_absent :: fs where
  "fs_skills_absent =
     \<lparr>backup = [(''clawdbot'', Dir [(''clawdbot.json'', File ''{\"a\":1}''), (''.hidden'', File ''h''),
                                   (''agents'', Dir [(''main.md'', File ''new'')])]),
                (''skills'', Dir [])],
      config = [(''skills'', Dir [(''weather'', File ''local'')]),
                (''agents'', Dir [(''notes.md'', File ''mine'')])]\<rparr>"

definition fs_skills_present :: fs where
  "fs_skills_present =
     \<lparr>backup = [(''clawdbot'', Dir [(''clawdbot.json'', File ''{\"a\":1}'')]),
                (''skills'', Dir [(''weather'', File ''remote''), (''.cache'', File ''c'')])],
      config = [(''skills'', Dir [(''weather'', File ''local''), (''mine'', File ''kept'')])]\<rparr>"

definition fs_config_holds_skills :: fs where
  "fs_config_holds_skills =
     \<lparr>backup = [(''clawdbot'', Dir [(''clawdbot.json'', File ''{\"a\":1}''), (''.env'', File ''KEY=1''),
                                   (''skills'', Dir [(''weather'', File ''remote'')])])],
      config = [(''skills'', Dir [(''weather'', File ''local'')])]\<rparr>"

definition fs_skills_is_file :: fs where
  "fs_skills_is_file =
     \<lparr>backup = [(''clawdbot'', Dir [(''clawdbot.json'', File ''{\"a\":1}'')]),
                (''skills'', Dir [(''weather'', File ''remote'')])],
      config = [(''skills'', File ''not a directory'')]\<rparr>"

definition env_native_and_direct :: env where
  "env_native_and_direct =
     map_of [(''CF_ACCOUNT_ID'', ''acct-1''), (''CLOUDFLARE_AI_GATEWAY_API_KEY'', ''provider-key''),
             (''ANTHROPIC_API_KEY'', ''direct-key'')]"

definition env_direct_only :: env where
  "env_direct_only = map_of [(''CF_ACCOUNT_ID'', ''acct-1''), (''ANTHROPIC_API_KEY'', ''direct-key'')]"

definition cfg_with_legacy_providers :: gateway_config where
  "cfg_with_legacy_providers =
     \<lparr>providers = [(''anthropic'', JObj [(''baseUrl'', JStr ''https://old.example/anthropic'')]),
                   (''openai'', JObj [(''baseUrl'', JStr ''https://old.example/openai'')]),
                   (''ollama'', JObj [(''baseUrl'', JStr ''http://localhost:11434'')])],
      models = None,
      primary = Some (JStr ''anthropic/claude-opus-4-5'')\<rparr>"

definition env_unconfigured :: env where
  "env_unconfigured = map_of [(''MOLTBOT_GATEWAY_TOKEN'', ''secret''), (''CF_ACCESS_AUD'', ''aud'')]"

definition env_legacy_and_direct :: env where
  "env_legacy_and_direct =
     map_of [(''AI_GATEWAY_BASE_URL'', ''https://gw.example/v1/acct/gw/anthropic/''),
             (''AI_GATEWAY_API_KEY'', ''gw-key''), (''ANTHROPIC_API_KEY'', ''direct-key'')]"

definition env_slash_base_url :: env where
  "env_slash_base_url =
     map_of [(''AI_GATEWAY_BASE_URL'', ''/''), (''AI_GATEWAY_API_KEY'', ''gw-key''),
             (''ANTHROPIC_API_KEY'', ''direct-key'')]"

definition req_browser :: request where
  "req_browser =
     \<lparr>pathname = ''/chat'', url_host = ''bot.example.com'',
      accept = Some ''text/html,application/xhtml+xml'', upgrade = None\<rparr>"

definition req_api :: request where
  "req_api =
     \<lparr>pathname = ''/v1/status'', url_host = ''bot.example.com'',
      accept = Some ''application/json'', upgrade = None\<rparr>"

definition req_debug :: request where
  "req_debug =
     \<lparr>pathname = ''/debug/env'', url_host = ''bot.example.com'',
      accept = None, upgrade = None\<rparr>"

definition gateway_response :: response where
  "gateway_response =
     \<lparr>resp_body = Some ''{\"ok\":true}'', resp_status = 404, resp_statusText = ''Not Found'',
      resp_headers = [(''content-type'', ''application/json''), (''set-cookie'', ''a=1''),
                      (''set-cookie'', ''b=2'')],
      resp_webSocket = False\<rparr>"

section \<open>Theorems\<close>

subsection \<open>\<open>buildEnvVars\<close>\<close>

lemma truthy_simps: "truthy None = False" "truthy (Some s) = (s \<noteq> [])"
  by (simp_all add: truthy_def)

lemma set_if_other: "k' \<noteq> k \<Longrightarrow> set_if v k m k' = m k'"
  by (simp add: set_if_def)

lemma native_vars_provider_keys:
  "native_vars env Map.empty ''ANTHROPIC_API_KEY'' = None"
  "native_vars env Map.empty ''OPENAI_API_KEY'' = None"
  "native_vars env Map.empty ''ANTHROPIC_BASE_URL'' = None"
  by (simp_all add: native_vars_def Let_def set_if_other)

lemma channel_vars_provider_keys:
  "channel_vars env m ''ANTHROPIC_API_KEY'' = m ''ANTHROPIC_API_KEY''"
  "channel_vars env m ''OPENAI_API_KEY'' = m ''OPENAI_API_KEY''"
  "channel_vars env m ''ANTHROPIC_BASE_URL'' = m ''ANTHROPIC_BASE_URL''"
  by (simp_all add: channel_vars_def Let_def set_if_other)

text \<open>What the legacy block leaves in the three entries the direct keys fall back on.\<close>

lemma legacy_vars_provider_keys:
  "legacy_vars env (native_vars env Map.empty) ''ANTHROPIC_API_KEY'' =
     (if truthy (normalizedBaseUrl env) \<and> \<not> isOpenAIGateway env \<and> truthy (env ''AI_GATEWAY_API_KEY'')
      then env ''AI_GATEWAY_API_KEY'' else None)"
  "legacy_vars env (native_vars env Map.empty) ''OPENAI_API_KEY'' =
     (if truthy (normalizedBaseUrl env) \<and> isOpenAIGateway env \<and> truthy (env ''AI_GATEWAY_API_KEY'')
      then env ''AI_GATEWAY_API_KEY'' else None)"
  "legacy_vars env (native_vars env Map.empty) ''ANTHROPIC_BASE_URL'' =
     (if truthy (normalizedBaseUrl env) \<and> \<not> isOpenAIGateway env
      then normalizedBaseUrl env else None)"
  by (simp_all add: legacy_vars_def Let_def set_if_def native_vars_provider_keys)

lemma direct_vars_provider_keys:
  "direct_vars env m ''ANTHROPIC_API_KEY'' =
     (if truthy (m ''ANTHROPIC_API_KEY'') then m ''ANTHROPIC_API_KEY''
      else if truthy (env ''ANTHROPIC_API_KEY'') then env ''ANTHROPIC_API_KEY''
      else m ''ANTHROPIC_API_KEY'')"
  "direct_vars env m ''OPENAI_API_KEY'' =
     (if truthy (m ''OPENAI_API_KEY'') then m ''OPENAI_API_KEY''
      else if truthy (env ''OPENAI_API_KEY'') then env ''OPENAI_API_KEY''
      else m ''OPENAI_API_KEY'')"
  "direct_vars env m ''ANTHROPIC_BASE_URL'' =
     (if truthy (m ''ANTHROPIC_BASE_URL'') then m ''ANTHROPIC_BASE_URL''
      else if truthy (env ''ANTHROPIC_BASE_URL'') then env ''ANTHROPIC_BASE_URL''
      else m ''ANTHROPIC_BASE_URL'')"
  by (simp_all add: direct_vars_def Let_def)

text \<open>
  Claim C10, as amended. Where \<open>AI_GATEWAY_BASE_URL\<close> is still non-empty after its trailing
  slashes are removed, and \<open>AI_GATEWAY_API_KEY\<close> is set, the output \<open>OPENAI_API_KEY\<close> (for a
  URL ending in \<open>/openai\<close> or \<open>/compat\<close>) or \<open>ANTHROPIC_API_KEY\<close> (otherwise) is
  \<open>AI_GATEWAY_API_KEY\<close>, whatever the direct keys are. The direct \<open>ANTHROPIC_API_KEY\<close>,
  \<open>OPENAI_API_KEY\<close> and \<open>ANTHROPIC_BASE_URL\<close> reach the output only where the legacy block
  left that entry unset.
\<close>

theorem buildEnvVars_legacy_over_direct:
  "(truthy (normalizedBaseUrl env) \<and> truthy (env ''AI_GATEWAY_API_KEY'') \<longrightarrow>
      (if isOpenAIGateway env then buildEnvVars env ''OPENAI_API_KEY''
       else buildEnvVars env ''ANTHROPIC_API_KEY'') = env ''AI_GATEWAY_API_KEY'')
   \<and> buildEnvVars env ''ANTHROPIC_API_KEY'' =
       (if truthy (normalizedBaseUrl env) \<and> \<not> isOpenAIGateway env \<and> truthy (env ''AI_GATEWAY_API_KEY'')
        then env ''AI_GATEWAY_API_KEY''
        else if truthy (env ''ANTHROPIC_API_KEY'') then env ''ANTHROPIC_API_KEY'' else None)
   \<and> buildEnvVars env ''OPENAI_API_KEY'' =
       (if truthy (normalizedBaseUrl env) \<and> isOpenAIGateway env \<and> truthy (env ''AI_GATEWAY_API_KEY'')
        then env ''AI_GATEWAY_API_KEY''
        else if truthy (env ''OPENAI_API_KEY'') then env ''OPENAI_API_KEY'' else None)
   \<and> buildEnvVars env ''ANTHROPIC_BASE_URL'' =
       (if truthy (normalizedBaseUrl env) \<and> \<not> isOpenAIGateway env then normalizedBaseUrl env
        else if truthy (env ''ANTHROPIC_BASE_URL'') then env ''ANTHROPIC_BASE_URL'' else None)"
  by (simp add: buildEnvVars_def channel_vars_provider_keys direct_vars_provider_keys
      legacy_vars_provider_keys truthy_simps)

theorem buildEnvVars_legacy_over_direct_witness:
  "truthy (normalizedBaseUrl env_legacy_and_direct)
   \<and> truthy (env_legacy_and_direct ''AI_GATEWAY_API_KEY'')
   \<and> truthy (env_legacy_and_direct ''ANTHROPIC_API_KEY'')
   \<and> \<not> isOpenAIGateway env_legacy_and_direct
   \<and> buildEnvVars env_legacy_and_direct ''ANTHROPIC_API_KEY'' = Some ''gw-key''"
proof -
  have "truthy (normalizedBaseUrl env_legacy_and_direct)
      \<and> truthy (env_legacy_and_direct ''AI_GATEWAY_API_KEY'')
      \<and> truthy (env_legacy_and_direct ''ANTHROPIC_API_KEY'')
      \<and> \<not> isOpenAIGateway env_legacy_and_direct
      \<and> env_legacy_and_direct ''AI_GATEWAY_API_KEY'' = Some ''gw-key''"
    by code_simp
  then show ?thesis
    using buildEnvVars_legacy_over_direct [of env_legacy_and_direct]
    by (simp add: truthy_simps)
qed

text \<open>
  Claim C10 as stated fails for a base URL made of slashes only: \<open>AI_GATEWAY_BASE_URL = "/"\<close>
  is set, but it normalises to the empty string, the legacy block is skipped
  (\<open>if (normalizedBaseUrl)\<close>), and the direct key is passed on.
\<close>

theorem buildEnvVars_slash_base_url_counterexample:
  "truthy (env_slash_base_url ''AI_GATEWAY_BASE_URL'')
   \<and> truthy (env_slash_base_url ''AI_GATEWAY_API_KEY'')
   \<and> env_slash_base_url ''AI_GATEWAY_API_KEY'' = Some ''gw-key''
   \<and> \<not> isOpenAIGateway env_slash_base_url
   \<and> buildEnvVars env_slash_base_url ''ANTHROPIC_API_KEY'' = Some ''direct-key''
   \<and> buildEnvVars env_slash_base_url ''ANTHROPIC_API_KEY''
       \<noteq> env_slash_base_url ''AI_GATEWAY_API_KEY''"
  by code_simp

subsection \<open>The environment check\<close>

lemma validateRequiredEnv_members:
  "''MOLTBOT_GATEWAY_TOKEN'' \<in> set (validateRequiredEnv env)
     \<longleftrightarrow> \<not> truthy (env ''MOLTBOT_GATEWAY_TOKEN'')"
  "''CF_ACCESS_TEAM_DOMAIN'' \<in> set (validateRequiredEnv env)
     \<longleftrightarrow> \<not> truthy (env ''CF_ACCESS_TEAM_DOMAIN'')"
  "''CF_ACCESS_AUD'' \<in> set (validateRequiredEnv env) \<longleftrightarrow> \<not> truthy (env ''CF_ACCESS_AUD'')"
  "ai_provider_hint \<in> set (validateRequiredEnv env) \<longleftrightarrow>
     \<not> hasNativeAIGateway env \<and> \<not> hasLegacyAIGateway env \<and> \<not> hasDirectAnthropic env"
  by (simp_all add: validateRequiredEnv_def ai_provider_hint_def)

lemma validateRequiredEnv_range:
  "set (validateRequiredEnv env) \<subseteq>
     {''MOLTBOT_GATEWAY_TOKEN'', ''CF_ACCESS_TEAM_DOMAIN'', ''CF_ACCESS_AUD'', ai_provider_hint}"
  by (auto simp: validateRequiredEnv_def)

lemma validateRequiredEnv_distinct: "distinct (validateRequiredEnv env)"
  by (simp add: validateRequiredEnv_def ai_provider_hint_def)

lemma validateRequiredEnv_Nil_iff:
  "validateRequiredEnv env = [] \<longleftrightarrow>
     truthy (env ''MOLTBOT_GATEWAY_TOKEN'') \<and> truthy (env ''CF_ACCESS_TEAM_DOMAIN'')
     \<and> truthy (env ''CF_ACCESS_AUD'')
     \<and> (hasNativeAIGateway env \<or> hasLegacyAIGateway env \<or> hasDirectAnthropic env)"
  by (auto simp: validateRequiredEnv_def)

lemma env_validation_skipped:
  "startsWith (pathname req) ''/debug'' \<or> env ''DEV_MODE'' = Some ''true'' \<Longrightarrow>
   env_validation configErrorHtml env req = None"
  by (auto simp: env_validation_def)

lemma env_validation_missing:
  assumes "\<not> startsWith (pathname req) ''/debug''" and "env ''DEV_MODE'' \<noteq> Some ''true''"
    and "validateRequiredEnv env \<noteq> []"
  shows "env_validation configErrorHtml env req =
        Some (if acceptsHtml req
              then Html (js_replace configErrorHtml ''{{MISSING_VARS}}''
                          (str_join '', '' (validateRequiredEnv env))) 503
              else Json (JObj
                [(''error'', JStr ''Configuration error''),
                 (''message'', JStr ''Required environment variables are not configured''),
                 (''missing'', JArr (map JStr (validateRequiredEnv env))),
                 (''hint'', JStr ''Set these using: wrangler secret put <VARIABLE_NAME>'')]) 503)"
  using assms by (simp add: env_validation_def Let_def)

text \<open>
  Claim C5. For a request whose path does not start with \<open>/debug\<close>, outside dev mode, with
  at least one required setting missing, the middleware replies 503: with the error page
  (the list of missing settings put in place of \<open>{{MISSING_VARS}}\<close>) when \<open>Accept\<close> includes
  \<open>text/html\<close>, and otherwise with a JSON body whose \<open>error\<close>, \<open>message\<close> and \<open>missing\<close>
  members are as given, \<open>missing\<close> being the list \<open>validateRequiredEnv\<close> computed. The check
  is skipped (the request goes on) when the path starts with \<open>/debug\<close> or \<open>DEV_MODE\<close> is
  \<open>'true'\<close>. The list names exactly the settings that are not set, once each.
\<close>

theorem env_validation_503:
  "(\<not> startsWith (pathname req) ''/debug'' \<and> env ''DEV_MODE'' \<noteq> Some ''true''
      \<and> validateRequiredEnv env \<noteq> [] \<longrightarrow>
      env_validation configErrorHtml env req =
        Some (if acceptsHtml req
              then Html (js_replace configErrorHtml ''{{MISSING_VARS}}''
                          (str_join '', '' (validateRequiredEnv env))) 503
              else Json (JObj
                [(''error'', JStr ''Configuration error''),
                 (''message'', JStr ''Required environment variables are not configured''),
                 (''missing'', JArr (map JStr (validateRequiredEnv env))),
                 (''hint'', JStr ''Set these using: wrangler secret put <VARIABLE_NAME>'')]) 503))
   \<and> (startsWith (pathname req) ''/debug'' \<or> env ''DEV_MODE'' = Some ''true'' \<longrightarrow>
        env_validation configErrorHtml env req = None)
   \<and> (validateRequiredEnv env = [] \<longrightarrow> env_validation configErrorHtml env req = None)
   \<and> (validateRequiredEnv env \<noteq> [] \<longleftrightarrow>
        \<not> truthy (env ''MOLTBOT_GATEWAY_TOKEN'') \<or> \<not> truthy (env ''CF_ACCESS_TEAM_DOMAIN'')
        \<or> \<not> truthy (env ''CF_ACCESS_AUD'')
        \<or> (\<not> hasNativeAIGateway env \<and> \<not> hasLegacyAIGateway env \<and> \<not> hasDirectAnthropic env))
   \<and> (''MOLTBOT_GATEWAY_TOKEN'' \<in> set (validateRequiredEnv env)
        \<longleftrightarrow> \<not> truthy (env ''MOLTBOT_GATEWAY_TOKEN''))
   \<and> (''CF_ACCESS_TEAM_DOMAIN'' \<in> set (validateRequiredEnv env)
        \<longleftrightarrow> \<not> truthy (env ''CF_ACCESS_TEAM_DOMAIN''))
   \<and> (''CF_ACCESS_AUD'' \<in> set (validateRequiredEnv env) \<longleftrightarrow> \<not> truthy (env ''CF_ACCESS_AUD''))
   \<and> (ai_provider_hint \<in> set (validateRequiredEnv env) \<longleftrightarrow>
        \<not> hasNativeAIGateway env \<and> \<not> hasLegacyAIGateway env \<and> \<not> hasDirectAnthropic env)
   \<and> set (validateRequiredEnv env) \<subseteq>
        {''MOLTBOT_GATEWAY_TOKEN'', ''CF_ACCESS_TEAM_DOMAIN'', ''CF_ACCESS_AUD'', ai_provider_hint}
   \<and> distinct (validateRequiredEnv env)"
proof (intro conjI impI)
  assume "\<not> startsWith (pathname req) ''/debug'' \<and> env ''DEV_MODE'' \<noteq> Some ''true''
      \<and> validateRequiredEnv env \<noteq> []"
  then show "env_validation configErrorHtml env req =
        Some (if acceptsHtml req
              then Html (js_replace configErrorHtml ''{{MISSING_VARS}}''
                          (str_join '', '' (validateRequiredEnv env))) 503
              else Json (JObj
                [(''error'', JStr ''Configuration error''),
                 (''message'', JStr ''Required environment variables are not configured''),
                 (''missing'', JArr (map JStr (validateRequiredEnv env))),
                 (''hint'', JStr ''Set these using: wrangler secret put <VARIABLE_NAME>'')]) 503)"
    by (simp add: env_validation_missing)
next
  assume "startsWith (pathname req) ''/debug'' \<or> env ''DEV_MODE'' = Some ''true''"
  then show "env_validation configErrorHtml env req = None"
    by (rule env_validation_skipped)
next
  assume "validateRequiredEnv env = []"
  then show "env_validation configErrorHtml env req = None"
    by (simp add: env_validation_def)
next
  show "validateRequiredEnv env \<noteq> [] \<longleftrightarrow>
        \<not> truthy (env ''MOLTBOT_GATEWAY_TOKEN'') \<or> \<not> truthy (env ''CF_ACCESS_TEAM_DOMAIN'')
        \<or> \<not> truthy (env ''CF_ACCESS_AUD'')
        \<or> (\<not> hasNativeAIGateway env \<and> \<not> hasLegacyAIGateway env \<and> \<not> hasDirectAnthropic env)"
    using validateRequiredEnv_Nil_iff [of env] by blast
qed (simp_all add: validateRequiredEnv_members validateRequiredEnv_range validateRequiredEnv_distinct)

theorem env_validation_503_witness:
  "\<not> startsWith (pathname req_browser) ''/debug'' \<and> env_unconfigured ''DEV_MODE'' \<noteq> Some ''true''
   \<and> validateRequiredEnv env_unconfigured = [''CF_ACCESS_TEAM_DOMAIN'', ai_provider_hint]
   \<and> acceptsHtml req_browser
   \<and> env_validation ''<p>Missing: {{MISSING_VARS}}</p>'' env_unconfigured req_browser
       = Some (Html (''<p>Missing: CF_ACCESS_TEAM_DOMAIN, '' @ ai_provider_hint @ ''</p>'') 503)
   \<and> \<not> acceptsHtml req_api
   \<and> env_validation ''<p>Missing: {{MISSING_VARS}}</p>'' env_unconfigured req_api
       = Some (Json (JObj
            [(''error'', JStr ''Configuration error''),
             (''message'', JStr ''Required environment variables are not configured''),
             (''missing'', JArr [JStr ''CF_ACCESS_TEAM_DOMAIN'', JStr ai_provider_hint]),
             (''hint'', JStr ''Set these using: wrangler secret put <VARIABLE_NAME>'')]) 503)
   \<and> startsWith (pathname req_debug) ''/debug''
   \<and> env_validation ''<p>Missing: {{MISSING_VARS}}</p>'' env_unconfigured req_debug = None
   \<and> env_validation ''<p>Missing: {{MISSING_VARS}}</p>''
        (env_unconfigured(''DEV_MODE'' \<mapsto> ''true'')) req_browser = None"
proof -
  have 1: "\<not> startsWith (pathname req_browser) ''/debug'' \<and> env_unconfigured ''DEV_MODE'' \<noteq> Some ''true''
      \<and> \<not> startsWith (pathname req_api) ''/debug'' \<and> startsWith (pathname req_debug) ''/debug''
      \<and> acceptsHtml req_browser \<and> \<not> acceptsHtml req_api"
    by code_simp
  have 2: "validateRequiredEnv env_unconfigured = [''CF_ACCESS_TEAM_DOMAIN'', ai_provider_hint]"
    by code_simp
  have 3: "js_replace ''<p>Missing: {{MISSING_VARS}}</p>'' ''{{MISSING_VARS}}''
             (str_join '', '' [''CF_ACCESS_TEAM_DOMAIN'', ai_provider_hint])
           = ''<p>Missing: CF_ACCESS_TEAM_DOMAIN, '' @ ai_provider_hint @ ''</p>''"
    by code_simp
  show ?thesis
    using env_validation_503 [of req_browser env_unconfigured "''<p>Missing: {{MISSING_VARS}}</p>''"]
      env_validation_503 [of req_api env_unconfigured "''<p>Missing: {{MISSING_VARS}}</p>''"]
      env_validation_503 [of req_debug env_unconfigured "''<p>Missing: {{MISSING_VARS}}</p>''"]
      env_validation_503 [of req_browser "env_unconfigured(''DEV_MODE'' \<mapsto> ''true'')"
         "''<p>Missing: {{MISSING_VARS}}</p>''"]
      1 2 3
    by simp
qed

subsection \<open>The catch-all proxy handler\<close>

lemma loading_page_outcome:
  "\<not> isGatewayReady existingProcess \<and> \<not> isWebSocketRequest req \<and> acceptsHtml req \<Longrightarrow>
   proxy_handler loadingPageHtml configErrorHtml env req existingProcess started httpResponse
     = \<lparr>reply_of = Html loadingPageHtml 200,
        awaited = [FindProcess],
        background = [background_start started]\<rparr>"
  by (simp add: proxy_handler_def)

lemma background_start_once: "count_list (background_start r) StartGateway = 1"
  by (cases r) (simp_all add: background_start_def)

lemma background_start_failed:
  "background_start (StartFailed err)
     = [StartGateway, ConsoleError ''[PROXY] Background gateway start failed:'']"
  by (simp add: background_start_def)

text \<open>
  Claim C6. When the gateway is not ready, the request is not a WebSocket upgrade and
  \<open>Accept\<close> includes \<open>text/html\<close>, the handler replies with the loading page at once: it has
  awaited neither the start of the gateway nor a fetch from the container. It hands exactly
  one task to \<open>waitUntil\<close>, which starts the gateway once and, when the start fails, logs the
  failure; the reply is the same whatever the start does.
\<close>

theorem loading_page_branch:
  "\<not> isGatewayReady existingProcess \<and> \<not> isWebSocketRequest req \<and> acceptsHtml req \<longrightarrow>
     proxy_handler loadingPageHtml configErrorHtml env req existingProcess started httpResponse
       = \<lparr>reply_of = Html loadingPageHtml 200,
          awaited = [FindProcess],
          background = [background_start started]\<rparr>
     \<and> StartGateway \<notin> set (awaited
          (proxy_handler loadingPageHtml configErrorHtml env req existingProcess started httpResponse))
     \<and> ContainerFetch \<notin> set (awaited
          (proxy_handler loadingPageHtml configErrorHtml env req existingProcess started httpResponse))
     \<and> count_list (concat (background
          (proxy_handler loadingPageHtml configErrorHtml env req existingProcess started httpResponse)))
          StartGateway = 1
     \<and> (\<forall>err. background_start (StartFailed err)
            = [StartGateway, ConsoleError ''[PROXY] Background gateway start failed:''])
     \<and> (\<forall>started'.
           reply_of (proxy_handler loadingPageHtml configErrorHtml env req existingProcess started' httpResponse)
           = reply_of (proxy_handler loadingPageHtml configErrorHtml env req existingProcess started httpResponse))"
proof
  assume a: "\<not> isGatewayReady existingProcess \<and> \<not> isWebSocketRequest req \<and> acceptsHtml req"
  have out: "proxy_handler loadingPageHtml configErrorHtml env req existingProcess r httpResponse
       = \<lparr>reply_of = Html loadingPageHtml 200,
          awaited = [FindProcess],
          background = [background_start r]\<rparr>" for r
    using a by (rule loading_page_outcome)
  show "proxy_handler loadingPageHtml configErrorHtml env req existingProcess started httpResponse
       = \<lparr>reply_of = Html loadingPageHtml 200,
          awaited = [FindProcess],
          background = [background_start started]\<rparr>
     \<and> StartGateway \<notin> set (awaited
          (proxy_handler loadingPageHtml configErrorHtml env req existingProcess started httpResponse))
     \<and> ContainerFetch \<notin> set (awaited
          (proxy_handler loadingPageHtml configErrorHtml env req existingProcess started httpResponse))
     \<and> count_list (concat (background
          (proxy_handler loadingPageHtml configErrorHtml env req existingProcess started httpResponse)))
          StartGateway = 1
     \<and> (\<forall>err. background_start (StartFailed err)
            = [StartGateway, ConsoleError ''[PROXY] Background gateway start failed:''])
     \<and> (\<forall>started'.
           reply_of (proxy_handler loadingPageHtml configErrorHtml env req existingProcess started' httpResponse)
           = reply_of (proxy_handler loadingPageHtml configErrorHtml env req existingProcess started httpResponse))"
    by (simp add: out background_start_once background_start_failed)
qed

theorem loading_page_branch_witness:
  "\<not> isGatewayReady None \<and> \<not> isWebSocketRequest req_browser \<and> acceptsHtml req_browser
   \<and> proxy_handler ''<html>loading</html>'' ''<p>{{MISSING_VARS}}</p>'' Map.empty req_browser None
        (StartFailed (ErrorObject ''timeout'')) gateway_response
      = \<lparr>reply_of = Html ''<html>loading</html>'' 200,
         awaited = [FindProcess],
         background = [[StartGateway, ConsoleError ''[PROXY] Background gateway start failed:'']]\<rparr>
   \<and> \<not> isGatewayReady (Some \<lparr>proc_id = ''p1'', proc_status = ''starting''\<rparr>)
   \<and> reply_of (proxy_handler ''<html>loading</html>'' ''<p>{{MISSING_VARS}}</p>'' Map.empty req_browser
        (Some \<lparr>proc_id = ''p1'', proc_status = ''starting''\<rparr>) Started gateway_response)
      = Html ''<html>loading</html>'' 200"
proof -
  have 1: "\<not> isGatewayReady None \<and> \<not> isWebSocketRequest req_browser \<and> acceptsHtml req_browser
      \<and> \<not> isGatewayReady (Some \<lparr>proc_id = ''p1'', proc_status = ''starting''\<rparr>)"
    by code_simp
  have 2: "proxy_handler ''<html>loading</html>'' ''<p>{{MISSING_VARS}}</p>'' Map.empty req_browser None
        (StartFailed (ErrorObject ''timeout'')) gateway_response
      = \<lparr>reply_of = Html ''<html>loading</html>'' 200,
         awaited = [FindProcess],
         background = [[StartGateway, ConsoleError ''[PROXY] Background gateway start failed:'']]\<rparr>"
    using 1 by (simp add: proxy_handler_def background_start_def)
  show ?thesis
    using loading_page_branch [of None req_browser "''<html>loading</html>''"
        "''<p>{{MISSING_VARS}}</p>''" Map.empty "StartFailed (ErrorObject ''timeout'')" gateway_response]
      loading_page_branch [of "Some \<lparr>proc_id = ''p1'', proc_status = ''starting''\<rparr>" req_browser
        "''<html>loading</html>''" "''<p>{{MISSING_VARS}}</p>''" Map.empty Started gateway_response]
      1 2
    by simp
qed

lemma headers_values_set_same:
  "toLowerCase n = toLowerCase name \<Longrightarrow> headers_values (headers_set name v hs) n = [v]"
proof (induction hs)
  case Nil
  then show ?case by (simp add: headers_values_def)
next
  case (Cons h hs)
  obtain a b where h: "h = (a, b)" by (cases h)
  have "filter (\<lambda>(n', _). toLowerCase n' = toLowerCase n)
          (filter (\<lambda>(n', _). toLowerCase n' \<noteq> toLowerCase name) hs) = []"
    using Cons.prems by (auto simp: filter_empty_conv)
  then show ?case using Cons h by (auto simp: headers_values_def)
qed

lemma headers_values_set_other:
  "toLowerCase n \<noteq> toLowerCase name \<Longrightarrow> headers_values (headers_set name v hs) n = headers_values hs n"
proof (induction hs)
  case Nil
  then show ?case by (simp add: headers_values_def)
next
  case (Cons h hs)
  obtain a b where h: "h = (a, b)" by (cases h)
  have "filter (\<lambda>(n', _). toLowerCase n' = toLowerCase n)
          (filter (\<lambda>(n', _). toLowerCase n' \<noteq> toLowerCase name) hs)
        = filter (\<lambda>(n', _). toLowerCase n' = toLowerCase n) hs"
    using Cons.prems by (auto intro!: filter_cong)
  then show ?case using Cons h by (auto simp: headers_values_def)
qed

lemma headers_get_set_same:
  "toLowerCase n = toLowerCase name \<Longrightarrow> headers_get (headers_set name v hs) n = Some v"
  by (simp add: headers_get_def headers_values_set_same)

lemma headers_get_set_other:
  "toLowerCase n \<noteq> toLowerCase name \<Longrightarrow> headers_get (headers_set name v hs) n = headers_get hs n"
  by (simp add: headers_get_def headers_values_set_other)

lemma header_names_set:
  "header_names (headers_set name v hs) = insert (toLowerCase name) (header_names hs)"
proof (induction hs)
  case Nil
  then show ?case by (simp add: header_names_def)
next
  case (Cons h hs)
  obtain a b where h: "h = (a, b)" by (cases h)
  show ?case
  proof (cases "toLowerCase a = toLowerCase name")
    case True
    have "header_names (filter (\<lambda>(n', _). toLowerCase n' \<noteq> toLowerCase name) hs)
            = header_names hs - {toLowerCase name}"
      by (auto simp: header_names_def)
    then show ?thesis using True h by (auto simp: header_names_def)
  next
    case False
    then show ?thesis using Cons.IH h by (auto simp: header_names_def)
  qed
qed

text \<open>
  Claim C9. A request that is not a WebSocket upgrade and is forwarded (the gateway was ready,
  or the request does not take the loading page, and the start succeeded) gets a response
  with the status, status text and body of the gateway's response. Its headers are the
  gateway's with two more: \<open>X-Worker-Debug\<close> reads \<open>proxy-to-moltbot\<close>, \<open>X-Debug-Path\<close> reads
  the path of the request, every other header reads as in the gateway's response, and the
  names present are the gateway's and these two.
\<close>

theorem forward_response:
  "started = Started \<and> \<not> isWebSocketRequest req \<and> (isGatewayReady existingProcess \<or> \<not> acceptsHtml req) \<longrightarrow>
     (\<exists>r. reply_of (proxy_handler loadingPageHtml configErrorHtml env req existingProcess started httpResponse)
            = NewResponse r
        \<and> resp_status r = resp_status httpResponse
        \<and> resp_statusText r = resp_statusText httpResponse
        \<and> resp_body r = resp_body httpResponse
        \<and> headers_get (resp_headers r) ''X-Worker-Debug'' = Some ''proxy-to-moltbot''
        \<and> headers_get (resp_headers r) ''X-Debug-Path'' = Some (pathname req)
        \<and> (\<forall>n. toLowerCase n \<noteq> ''x-worker-debug'' \<and> toLowerCase n \<noteq> ''x-debug-path'' \<longrightarrow>
              headers_get (resp_headers r) n = headers_get (resp_headers httpResponse) n)
        \<and> header_names (resp_headers r)
            = header_names (resp_headers httpResponse) \<union> {''x-worker-debug'', ''x-debug-path''})"
proof
  assume a: "started = Started \<and> \<not> isWebSocketRequest req
    \<and> (isGatewayReady existingProcess \<or> \<not> acceptsHtml req)"
  let ?hs = "headers_set ''X-Debug-Path'' (pathname req)
               (headers_set ''X-Worker-Debug'' ''proxy-to-moltbot'' (resp_headers httpResponse))"
  let ?r = "\<lparr>resp_body = resp_body httpResponse, resp_status = resp_status httpResponse,
             resp_statusText = resp_statusText httpResponse, resp_headers = ?hs,
             resp_webSocket = False\<rparr>"
  have lw: "toLowerCase ''X-Worker-Debug'' = ''x-worker-debug''"
    and lp: "toLowerCase ''X-Debug-Path'' = ''x-debug-path''"
    by code_simp+
  have r: "reply_of (proxy_handler loadingPageHtml configErrorHtml env req existingProcess started httpResponse)
            = NewResponse ?r"
    using a by (auto simp: proxy_handler_def)
  have w: "headers_get ?hs ''X-Worker-Debug'' = Some ''proxy-to-moltbot''"
    by (simp add: headers_get_set_other headers_get_set_same lw lp)
  have p: "headers_get ?hs ''X-Debug-Path'' = Some (pathname req)"
    by (simp add: headers_get_set_same)
  have o: "\<forall>n. toLowerCase n \<noteq> ''x-worker-debug'' \<and> toLowerCase n \<noteq> ''x-debug-path'' \<longrightarrow>
              headers_get ?hs n = headers_get (resp_headers httpResponse) n"
    by (simp add: headers_get_set_other lw lp)
  have e: "header_names ?hs
            = header_names (resp_headers httpResponse) \<union> {''x-worker-debug'', ''x-debug-path''}"
    by (auto simp: header_names_set lw lp)
  show "\<exists>r. reply_of (proxy_handler loadingPageHtml configErrorHtml env req existingProcess started httpResponse)
            = NewResponse r
        \<and> resp_status r = resp_status httpResponse
        \<and> resp_statusText r = resp_statusText httpResponse
        \<and> resp_body r = resp_body httpResponse
        \<and> headers_get (resp_headers r) ''X-Worker-Debug'' = Some ''proxy-to-moltbot''
        \<and> headers_get (resp_headers r) ''X-Debug-Path'' = Some (pathname req)
        \<and> (\<forall>n. toLowerCase n \<noteq> ''x-worker-debug'' \<and> toLowerCase n \<noteq> ''x-debug-path'' \<longrightarrow>
              headers_get (resp_headers r) n = headers_get (resp_headers httpResponse) n)
        \<and> header_names (resp_headers r)
            = header_names (resp_headers httpResponse) \<union> {''x-worker-debug'', ''x-debug-path''}"
    using r w p o e by (intro exI [of _ ?r]) simp
qed

theorem forward_response_witness:
  "\<not> isWebSocketRequest req_api \<and> \<not> acceptsHtml req_api
   \<and> isGatewayReady (Some \<lparr>proc_id = ''p1'', proc_status = ''running''\<rparr>)
   \<and> (case reply_of (proxy_handler ''<html>loading</html>'' ''<p>{{MISSING_VARS}}</p>'' Map.empty
          req_api (Some \<lparr>proc_id = ''p1'', proc_status = ''running''\<rparr>) Started gateway_response) of
         NewResponse r \<Rightarrow>
           resp_status r = 404 \<and> resp_statusText r = ''Not Found''
           \<and> resp_body r = Some ''{\"ok\":true}''
           \<and> headers_get (resp_headers r) ''x-worker-debug'' = Some ''proxy-to-moltbot''
           \<and> headers_get (resp_headers r) ''x-debug-path'' = Some ''/v1/status''
           \<and> headers_get (resp_headers r) ''Content-Type'' = Some ''application/json''
           \<and> headers_get (resp_headers r) ''Set-Cookie'' = Some ''a=1, b=2''
           \<and> headers_get (resp_headers r) ''Server'' = None
       | _ \<Rightarrow> False)"
proof -
  have 1: "\<not> isWebSocketRequest req_api \<and> \<not> acceptsHtml req_api
      \<and> isGatewayReady (Some \<lparr>proc_id = ''p1'', proc_status = ''running''\<rparr>)"
    by code_simp
  have 2: "resp_body gateway_response = Some ''{\"ok\":true}'' \<and> resp_status gateway_response = 404
      \<and> resp_statusText gateway_response = ''Not Found'' \<and> pathname req_api = ''/v1/status''"
    by (simp add: gateway_response_def req_api_def)
  have 3: "headers_get (resp_headers gateway_response) ''Content-Type'' = Some ''application/json''
      \<and> headers_get (resp_headers gateway_response) ''Set-Cookie'' = Some ''a=1, b=2''
      \<and> headers_get (resp_headers gateway_response) ''Server'' = None"
    by code_simp
  have 4: "toLowerCase ''Content-Type'' = ''content-type'' \<and> toLowerCase ''Set-Cookie'' = ''set-cookie''
      \<and> toLowerCase ''Server'' = ''server'' \<and> toLowerCase ''x-worker-debug'' = ''x-worker-debug''
      \<and> toLowerCase ''x-debug-path'' = ''x-debug-path''
      \<and> toLowerCase ''X-Worker-Debug'' = ''x-worker-debug''
      \<and> toLowerCase ''X-Debug-Path'' = ''x-debug-path''"
    by code_simp
  from forward_response [of Started req_api "Some \<lparr>proc_id = ''p1'', proc_status = ''running''\<rparr>"
        "''<html>loading</html>''" "''<p>{{MISSING_VARS}}</p>''" Map.empty gateway_response] 1
  obtain r where r: "reply_of (proxy_handler ''<html>loading</html>'' ''<p>{{MISSING_VARS}}</p>''
        Map.empty req_api (Some \<lparr>proc_id = ''p1'', proc_status = ''running''\<rparr>) Started
        gateway_response) = NewResponse r"
    and f: "resp_status r = resp_status gateway_response"
      "resp_statusText r = resp_statusText gateway_response"
      "resp_body r = resp_body gateway_response"
      "headers_get (resp_headers r) ''X-Worker-Debug'' = Some ''proxy-to-moltbot''"
      "headers_get (resp_headers r) ''X-Debug-Path'' = Some (pathname req_api)"
    and o: "\<forall>n. toLowerCase n \<noteq> ''x-worker-debug'' \<and> toLowerCase n \<noteq> ''x-debug-path'' \<longrightarrow>
              headers_get (resp_headers r) n = headers_get (resp_headers gateway_response) n"
    by auto
  have same: "headers_get hs n = headers_get hs n'" if "toLowerCase n = toLowerCase n'" for hs n n'
    using that by (simp add: headers_get_def headers_values_def)
  have w: "headers_get (resp_headers r) ''x-worker-debug'' = Some ''proxy-to-moltbot''"
    using f(4) same [of "''x-worker-debug''" "''X-Worker-Debug''" "resp_headers r"] 4 by simp
  have p: "headers_get (resp_headers r) ''x-debug-path'' = Some ''/v1/status''"
    using f(5) same [of "''x-debug-path''" "''X-Debug-Path''" "resp_headers r"] 2 4 by simp
  have c: "headers_get (resp_headers r) ''Content-Type'' = Some ''application/json''"
    "headers_get (resp_headers r) ''Set-Cookie'' = Some ''a=1, b=2''"
    "headers_get (resp_headers r) ''Server'' = None"
    using o 3 4 by simp_all
  show ?thesis
    using 1 2 r f(1-3) w p c by simp
qed

subsection \<open>The WebSocket relay\<close>

text \<open>
  Claim C3, as amended. A text frame from the gateway that contains the characters
  \<open>"error"\<close>, parses as a JSON object and has a non-empty string as its top-level \<open>error\<close>
  is replaced by the re-serialised object with \<open>error\<close> set to: the token message
  (\<open>https://{host}?token={REPLACE_WITH_YOUR_TOKEN}\<close>) when the string contains
  \<open>gateway token missing\<close> or \<open>gateway token mismatch\<close>; otherwise the pairing message
  (\<open>https://{host}/_admin/\<close>) when it contains \<open>pairing required\<close>; otherwise the string
  itself. Every other frame is sent on as it came. What the listener sends to the caller is
  that frame and nothing else.
\<close>

theorem container_message_rewrite:
  "(data = Text s \<and> str_includes s ''\"error\"'' \<and> parse s = Some (JObj members)
      \<and> map_of members ''error'' = Some (JStr message) \<and> message \<noteq> [] \<longrightarrow>
      container_message parse stringify host data =
        Text (stringify (JObj (AList.update ''error''
          (JStr (if str_includes message ''gateway token missing''
                    \<or> str_includes message ''gateway token mismatch''
                 then ''Invalid or missing token. Visit https://'' @ host @ ''?token={REPLACE_WITH_YOUR_TOKEN}''
                 else if str_includes message ''pairing required''
                 then ''Pairing required. Visit https://'' @ host @ ''/_admin/''
                 else message)) members))))
   \<and> (\<not> (\<exists>s members message. data = Text s \<and> str_includes s ''\"error\"''
            \<and> parse s = Some (JObj members)
            \<and> map_of members ''error'' = Some (JStr message) \<and> message \<noteq> []) \<longrightarrow>
        container_message parse stringify host data = data)
   \<and> relay_event parse stringify host ContainerWs (Message data)
       = [Send ServerWs (container_message parse stringify host data)]"
  by (auto simp: container_message_def transformErrorMessage_def
      split: frame.splits option.splits json.splits)

theorem container_message_rewrite_witness:
  "container_message json_parse json_stringify ''bot.example.com''
      (Text ''{\"error\":\"gateway token mismatch\"}'')
     = Text ''{\"error\":\"Invalid or missing token. Visit https://bot.example.com?token={REPLACE_WITH_YOUR_TOKEN}\"}''
   \<and> container_message json_parse json_stringify ''bot.example.com''
      (Text ''{\"id\":7,\"error\":\"unauthorized: pairing required\"}'')
     = Text ''{\"id\":7,\"error\":\"Pairing required. Visit https://bot.example.com/_admin/\"}''
   \<and> container_message json_parse json_stringify ''bot.example.com''
      (Text ''{\"type\": \"chat\", \"text\": \"hi\"}'')
     = Text ''{\"type\": \"chat\", \"text\": \"hi\"}''
   \<and> container_message json_parse json_stringify ''bot.example.com''
      (Text ''plain \"error\" text'')
     = Text ''plain \"error\" text''
   \<and> container_message json_parse json_stringify ''bot.example.com'' (Binary [123, 34, 101])
     = Binary [123, 34, 101]"
proof -
  have 1: "str_includes ''{\"error\":\"gateway token mismatch\"}'' ''\"error\"''
     \<and> json_parse ''{\"error\":\"gateway token mismatch\"}''
          = Some (JObj [(''error'', JStr ''gateway token mismatch'')])"
    by code_simp
  have 2: "str_includes ''{\"id\":7,\"error\":\"unauthorized: pairing required\"}'' ''\"error\"''
     \<and> json_parse ''{\"id\":7,\"error\":\"unauthorized: pairing required\"}''
          = Some (JObj [(''id'', JNum 7), (''error'', JStr ''unauthorized: pairing required'')])"
    by code_simp
  have 3: "\<not> str_includes ''{\"type\": \"chat\", \"text\": \"hi\"}'' ''\"error\"''"
    by code_simp
  have 4: "json_parse ''plain \"error\" text'' = None"
    by code_simp
  have s1: "json_stringify (JObj (AList.update ''error''
       (JStr (''Invalid or missing token. Visit https://'' @ ''bot.example.com'' @ ''?token={REPLACE_WITH_YOUR_TOKEN}''))
       [(''error'', JStr ''gateway token mismatch'')]))
     = ''{\"error\":\"Invalid or missing token. Visit https://bot.example.com?token={REPLACE_WITH_YOUR_TOKEN}\"}''"
    by code_simp
  have s2: "json_stringify (JObj (AList.update ''error''
       (JStr (''Pairing required. Visit https://'' @ ''bot.example.com'' @ ''/_admin/''))
       [(''id'', JNum 7), (''error'', JStr ''unauthorized: pairing required'')]))
     = ''{\"id\":7,\"error\":\"Pairing required. Visit https://bot.example.com/_admin/\"}''"
    by code_simp
  have c1: "str_includes ''gateway token mismatch'' ''gateway token mismatch''"
    and c2: "\<not> str_includes ''unauthorized: pairing required'' ''gateway token missing''"
      "\<not> str_includes ''unauthorized: pairing required'' ''gateway token mismatch''"
      "str_includes ''unauthorized: pairing required'' ''pairing required''"
    by code_simp+
  show ?thesis
    using
      container_message_rewrite [of "Text ''{\"error\":\"gateway token mismatch\"}''"
        "''{\"error\":\"gateway token mismatch\"}''" json_parse
        "[(''error'', JStr ''gateway token mismatch'')]" "''gateway token mismatch''"
        json_stringify "''bot.example.com''"]
      container_message_rewrite [of "Text ''{\"id\":7,\"error\":\"unauthorized: pairing required\"}''"
        "''{\"id\":7,\"error\":\"unauthorized: pairing required\"}''" json_parse
        "[(''id'', JNum 7), (''error'', JStr ''unauthorized: pairing required'')]"
        "''unauthorized: pairing required''"
        json_stringify "''bot.example.com''"]
      container_message_rewrite [of "Text ''{\"type\": \"chat\", \"text\": \"hi\"}''" _ json_parse _ _
        json_stringify "''bot.example.com''"]
      container_message_rewrite [of "Text ''plain \"error\" text''" _ json_parse _ _
        json_stringify "''bot.example.com''"]
      container_message_rewrite [of "Binary [123, 34, 101]" _ json_parse _ _
        json_stringify "''bot.example.com''"]
      1 2 3 4 s1 s2 c1 c2
    by simp
qed

text \<open>
  Claim C3 as stated fails on three frames. An error that matches no pattern is parsed and
  printed again, which drops the space after the colon: the frame is not forwarded byte for
  byte. An error that contains both \<open>pairing required\<close> and \<open>gateway token missing\<close> gets
  the token message, which does not mention \<open>/_admin/\<close>. A frame whose member name is
  written with an escape (\<open>"\u0065rror"\<close>) has a top-level \<open>error\<close> containing
  \<open>pairing required\<close>, but lacks the characters \<open>"error"\<close> and is not rewritten.
\<close>

theorem container_message_counterexample:
  "container_message json_parse json_stringify ''bot.example.com'' (Text ''{\"error\": \"boom\"}'')
     = Text ''{\"error\":\"boom\"}''
   \<and> container_message json_parse json_stringify ''bot.example.com'' (Text ''{\"error\": \"boom\"}'')
     \<noteq> Text ''{\"error\": \"boom\"}''
   \<and> container_message json_parse json_stringify ''bot.example.com''
        (Text ''{\"error\":\"pairing required (gateway token missing)\"}'')
     = Text ''{\"error\":\"Invalid or missing token. Visit https://bot.example.com?token={REPLACE_WITH_YOUR_TOKEN}\"}''
   \<and> \<not> str_includes
         ''{\"error\":\"Invalid or missing token. Visit https://bot.example.com?token={REPLACE_WITH_YOUR_TOKEN}\"}''
         ''/_admin/''
   \<and> json_parse (''{\"'' @ [CHR 0x5C] @ ''u0065rror\":\"pairing required\"}'')
     = Some (JObj [(''error'', JStr ''pairing required'')])
   \<and> container_message json_parse json_stringify ''bot.example.com''
        (Text (''{\"'' @ [CHR 0x5C] @ ''u0065rror\":\"pairing required\"}''))
     = Text (''{\"'' @ [CHR 0x5C] @ ''u0065rror\":\"pairing required\"}'')"
  by code_simp

text \<open>
  What holds of the two legs when \<open>close\<close> takes every code it is given: the code 1011 of
  the error listeners and the code of every close event that arrives.
\<close>

lemma relay_step_keeps_pairing:
  assumes "accepts 1011"
    and "case snd ev of CloseEvent code reason \<Rightarrow> accepts code | _ \<Rightarrow> True"
    and "serverWs_open s = containerWs_open s"
  shows "serverWs_open (relay_step accepts parse stringify host s ev)
     = containerWs_open (relay_step accepts parse stringify host s ev)"
proof -
  obtain l e where ev: "ev = (l, e)" by (cases ev)
  show ?thesis
    using assms by (cases l; cases e) (simp_all add: ev relay_step_def close_leg_def)
qed

lemma relay_run_paired_from:
  assumes "accepts 1011"
  shows "list_all (\<lambda>ev. case snd ev of CloseEvent code reason \<Rightarrow> accepts code | _ \<Rightarrow> True) evs \<Longrightarrow>
   serverWs_open s = containerWs_open s \<Longrightarrow>
   serverWs_open (foldl (relay_step accepts parse stringify host) s evs)
     = containerWs_open (foldl (relay_step accepts parse stringify host) s evs)"
proof (induction evs arbitrary: s)
  case Nil
  then show ?case by simp
next
  case (Cons ev evs)
  have "serverWs_open (relay_step accepts parse stringify host s ev)
     = containerWs_open (relay_step accepts parse stringify host s ev)"
    using assms Cons.prems by (intro relay_step_keeps_pairing) simp_all
  then show ?case
    using Cons.IH Cons.prems(1) by simp
qed

lemma relay_run_paired:
  assumes "accepts 1011"
    and "list_all (\<lambda>ev. case snd ev of CloseEvent code reason \<Rightarrow> accepts code | _ \<Rightarrow> True) evs"
  shows "serverWs_open (relay_run accepts parse stringify host evs)
     = containerWs_open (relay_run accepts parse stringify host evs)"
  unfolding relay_run_def using assms by (intro relay_run_paired_from) simp_all

text \<open>
  Claim C7. The close listener of a leg calls \<open>close\<close> on the other leg with the code and
  reason of the event, and the error listener with code 1011, which \<open>close\<close> takes. When the
  browser closes its socket without a status code, the close event on the client leg
  carries code 1005; \<open>close\<close> on the container leg refuses that code and throws, nothing
  catches it, and the session is left with the client leg closed and the container leg
  open. The same happens in the other direction when the connection to the container drops
  (code 1006): the client leg stays open.
\<close>

theorem relay_close_reserved_code:
  "close_code_accepted 1011
   \<and> close_code_accepted 1005 = False
   \<and> close_code_accepted 1006 = False
   \<and> relay_event json_parse json_stringify ''bot.example.com'' ServerWs (CloseEvent 1005 [])
       = [Close ContainerWs 1005 []]
   \<and> relay_run close_code_accepted json_parse json_stringify ''bot.example.com''
        [(ServerWs, Message (Text ''hi'')), (ServerWs, CloseEvent 1005 [])]
       = \<lparr>serverWs_open = False, containerWs_open = True\<rparr>
   \<and> relay_run close_code_accepted json_parse json_stringify ''bot.example.com''
        [(ContainerWs, CloseEvent 1006 [])]
       = \<lparr>serverWs_open = True, containerWs_open = False\<rparr>
   \<and> relay_run close_code_accepted json_parse json_stringify ''bot.example.com''
        [(ServerWs, CloseEvent 1000 ''bye'')]
       = \<lparr>serverWs_open = False, containerWs_open = False\<rparr>
   \<and> relay_run close_code_accepted json_parse json_stringify ''bot.example.com''
        [(ContainerWs, ErrorEvent)]
       = \<lparr>serverWs_open = False, containerWs_open = False\<rparr>"
proof -
  have codes: "close_code_accepted 1011 \<and> close_code_accepted 1005 = False
     \<and> close_code_accepted 1006 = False \<and> close_code_accepted 1000"
    by (simp add: close_code_accepted_def)
  then show ?thesis
    by (simp add: relay_run_def relay_step_def close_leg_def)
qed
subsection \<open>The restore decision\<close>

lemma is_file_iff: "is_file n \<longleftrightarrow> (\<exists>c. n = Some (File c))"
  by (auto simp: is_file_def split: option.splits node.splits)

lemma is_dir_iff: "is_dir n \<longleftrightarrow> (\<exists>es. n = Some (Dir es))"
  by (auto simp: is_dir_def split: option.splits node.splits)

lemma test_gt_iff:
  "test_gt x y \<longleftrightarrow> (\<exists>a b. legal_number x = Some a \<and> legal_number y = Some b \<and> a > b)"
  by (auto simp: test_gt_def split: option.splits)

lemma should_restore_markers:
  assumes "is_file (R2_CONFIG_FILE st)" and "is_file (CONFIG_FILE st)"
    and "is_file (R2_SYNC_FILE st)" and "is_file (LOCAL_SYNC_FILE st)"
  shows "should_restore_from_r2 st \<longleftrightarrow>
     (\<exists>a b. marker_value (R2_SYNC_FILE st) = Some a \<and> marker_value (LOCAL_SYNC_FILE st) = Some b
            \<and> a > b)"
proof -
  from assms(3,4) obtain r2 l
    where "R2_SYNC_FILE st = Some (File r2)" "LOCAL_SYNC_FILE st = Some (File l)"
    by (auto simp: is_file_iff)
  then show ?thesis
    using assms by (simp add: should_restore_from_r2_def marker_value_def test_gt_iff)
qed

subsection \<open>What \<open>cp -r\<close> leaves under a name\<close>

lemma names_set: "set (names es) = fst ` set es"
  by (simp add: names_def)

lemma names_distinct: "distinct (names es)"
  by (simp add: names_def)

lemma map_of_names: "map_of es n = None \<longleftrightarrow> n \<notin> set (names es)"
  by (simp add: names_set map_of_eq_None_iff)

lemma cp_names_other: "n \<notin> set ns \<Longrightarrow> map_of (cp_names src ns dst) n = map_of dst n"
  by (induction ns arbitrary: dst) (auto simp: update_conv' split: option.splits)

lemma cp_names_absent:
  "map_of src n = None \<Longrightarrow> map_of (cp_names src ns dst) n = map_of dst n"
  by (induction ns arbitrary: dst) (auto simp: update_conv' split: option.splits)

text \<open>A name that is copied, once: what it leads to afterwards is the copy over what was there.\<close>

lemma cp_names_entry:
  "distinct ns \<Longrightarrow> n \<in> set ns \<Longrightarrow> map_of src n = Some x \<Longrightarrow>
   map_of (cp_names src ns dst) n = Some (cp_node x (map_of dst n))"
proof (induction ns arbitrary: dst)
  case Nil
  then show ?case by simp
next
  case (Cons a ns)
  show ?case
  proof (cases "a = n")
    case True
    with Cons.prems have "n \<notin> set ns" by simp
    then show ?thesis
      using True Cons.prems(3) by (simp add: cp_names_other update_conv')
  next
    case False
    with Cons.prems have "n \<in> set ns" "distinct ns" by simp_all
    then show ?thesis
      using False Cons.IH [OF \<open>distinct ns\<close> \<open>n \<in> set ns\<close> Cons.prems(3)]
      by (simp add: update_conv' split: option.splits)
  qed
qed

lemma cp_glob_entry:
  assumes "map_of src n = Some x" and "visible n"
  shows "map_of (cp_glob src dst) n = Some (cp_node x (map_of dst n))"
proof -
  from assms(1) have "n \<in> set (names src)"
    using map_of_names [of src n] by simp
  with assms(2) have "n \<in> set (filter visible (names src))" by simp
  moreover have "distinct (filter visible (names src))"
    by (simp add: names_distinct)
  ultimately show ?thesis
    unfolding cp_glob_def using assms(1) by (intro cp_names_entry)
qed

text \<open>Entries of the destination that the pattern does not name stay as they are.\<close>

lemma cp_glob_other:
  assumes "\<not> visible n \<or> map_of src n = None"
  shows "map_of (cp_glob src dst) n = map_of dst n"
  using assms unfolding cp_glob_def by (auto simp: cp_names_other cp_names_absent)

lemma cp_all_entry:
  assumes "map_of src n = Some x"
  shows "map_of (cp_names src (names src) dst) n = Some (cp_node x (map_of dst n))"
proof -
  from assms have "n \<in> set (names src)"
    using map_of_names [of src n] by simp
  then show ?thesis
    using assms names_distinct by (intro cp_names_entry)
qed

text \<open>
  A directory copied to a name that leads to no file: the name then leads to a directory
  that holds the copy of every entry of the source, hidden ones included, and the entries
  that were there and the source lacks.
\<close>

lemma cp_node_dir:
  assumes "\<not> is_file d"
  shows "\<exists>ds'. cp_node (Dir sub) d = Dir ds'
      \<and> (\<forall>m y. map_of sub m = Some y \<longrightarrow> map_of ds' m = Some (cp_node y (child d m)))
      \<and> (\<forall>m. map_of sub m = None \<longrightarrow> map_of ds' m = child d m)"
  using assms
  by (auto simp: is_file_def child_def cp_all_entry cp_names_absent split: option.splits node.splits)

lemma cp_node_file: "\<not> is_dir d \<Longrightarrow> cp_node (File c) d = File c"
  by (auto simp: is_dir_def split: option.splits node.splits)

subsection \<open>The restore step\<close>

lemma should_restore_r2_config_dir:
  assumes "should_restore_from_r2 st"
  shows "\<exists>es c. map_of (backup st) ''clawdbot'' = Some (Dir es)
             \<and> map_of es ''clawdbot.json'' = Some (File c)"
proof -
  from assms have "is_file (R2_CONFIG_FILE st)"
    by (auto simp: should_restore_from_r2_def split: if_splits)
  then show ?thesis
    by (auto simp: is_file_iff R2_CONFIG_FILE_def child_def split: option.splits node.splits)
qed

lemma restore_skills_other:
  "restore_skills st cfg = Inr cfg' \<Longrightarrow> n \<noteq> ''skills'' \<Longrightarrow> map_of cfg' n = map_of cfg n"
  by (auto simp: restore_skills_def update_conv' split: option.splits node.splits)

text \<open>The skills step touches the entry \<open>skills\<close> alone, also when it stops the script.\<close>

lemma restore_disk_other:
  assumes "should_restore_from_r2 st" and "n \<noteq> ''skills''"
  shows "map_of (config (disk_after (restore st))) n = map_of (restore_config st) n"
proof (cases "r2_skills_nonempty st")
  case False
  then show ?thesis
    using assms(1) by (simp add: restore_def disk_after_def)
next
  case True
  show ?thesis
  proof (cases "restore_skills st (restore_config st)")
    case (Inl e)
    then show ?thesis
      using assms(1) True by (simp add: restore_def disk_after_def)
  next
    case (Inr cfg')
    then have "map_of cfg' n = map_of (restore_config st) n"
      using assms(2) by (rule restore_skills_other)
    then show ?thesis
      using assms(1) True Inr by (simp add: restore_def disk_after_def)
  qed
qed

text \<open>
  After the restore step the local \<open>clawdbot.json\<close> is the backed-up one, unless a directory
  of that name was in the way.
\<close>

lemma restore_config_file:
  assumes "should_restore_from_r2 st" and "\<not> is_dir (CONFIG_FILE st)"
  shows "CONFIG_FILE (disk_after (restore st)) = R2_CONFIG_FILE st"
proof -
  from assms(1) obtain es c
    where es: "map_of (backup st) ''clawdbot'' = Some (Dir es)"
      and cfgfile: "map_of es ''clawdbot.json'' = Some (File c)"
    using should_restore_r2_config_dir by blast
  have "visible ''clawdbot.json''"
    by (simp add: visible_def)
  with cfgfile have "map_of (cp_glob es (config st)) ''clawdbot.json''
      = Some (cp_node (File c) (map_of (config st) ''clawdbot.json''))"
    by (rule cp_glob_entry)
  also have "cp_node (File c) (map_of (config st) ''clawdbot.json'') = File c"
    using assms(2) by (intro cp_node_file) (simp add: CONFIG_FILE_def)
  finally have "map_of (restore_config st) ''clawdbot.json'' = Some (File c)"
    using es by (simp add: restore_config_def)
  moreover have "map_of (config (disk_after (restore st))) ''clawdbot.json''
      = map_of (restore_config st) ''clawdbot.json''"
    using assms(1) by (rule restore_disk_other) simp
  ultimately show ?thesis
    using es cfgfile by (simp add: CONFIG_FILE_def R2_CONFIG_FILE_def child_def)
qed

lemma ls_A_Nil: "ls_A [] = []"
  by (simp add: ls_A_def names_def)

lemma r2_skills_nonempty_iff:
  "r2_skills_nonempty st \<longleftrightarrow>
     (\<exists>ss. map_of (backup st) ''skills'' = Some (Dir ss) \<and> cat_subst (ls_A ss) \<noteq> [])"
  by (auto simp: r2_skills_nonempty_def split: option.splits node.splits)

lemma r2_skills_nonempty_entries:
  "r2_skills_nonempty st \<Longrightarrow> \<exists>ss. map_of (backup st) ''skills'' = Some (Dir ss) \<and> ss \<noteq> []"
  by (auto simp: r2_skills_nonempty_iff cat_subst_def ls_A_Nil)

text \<open>
  The listing of a directory is not empty as soon as one of its names holds a character
  other than a newline.
\<close>

lemma ls_A_prints:
  assumes "(n, x) \<in> set ss" and "ch \<in> set n" and "ch \<noteq> CHR 0x0A"
  shows "cat_subst (ls_A ss) \<noteq> []"
proof -
  from assms(1) have "n \<in> set (names ss)"
    by (force simp: names_set)
  with assms(2) have "ch \<in> set (ls_A ss)"
    by (auto simp: ls_A_def)
  with assms(3) show ?thesis
    by (auto simp: cat_subst_def dropWhile_eq_Nil_conv)
qed

text \<open>
  Claim C2. The three cases of the decision are read as the cascade the script runs. Without
  a backed-up \<open>clawdbot.json\<close> nothing is restored, whatever the local state, and the state is
  left as it was. With one, and without a local \<open>clawdbot.json\<close>, the restore happens whatever
  the markers say. With both config files and both marker files, the restore happens exactly
  when both markers hold integers and the remote one is strictly greater; with both config
  files and a marker file missing, it does not happen. Whenever the decision is not to
  restore, the restore step leaves the whole state untouched. Whenever it is to restore,
  the backed-up config directory has been copied into the local one when the step ends,
  also when the step stops the script: every local entry other than \<open>skills\<close> is what the
  copy leaves there, and the local \<open>clawdbot.json\<close> is the backed-up one, both where none
  existed and where the remote marker is the greater.
\<close>

theorem restore_decision:
  "(\<not> is_file (R2_CONFIG_FILE st) \<longrightarrow> \<not> should_restore_from_r2 st \<and> restore st = Inr st)
   \<and> (is_file (R2_CONFIG_FILE st) \<and> \<not> is_file (CONFIG_FILE st) \<longrightarrow>
        should_restore_from_r2 st
        \<and> (CONFIG_FILE st = None \<longrightarrow> CONFIG_FILE (disk_after (restore st)) = R2_CONFIG_FILE st))
   \<and> (is_file (R2_CONFIG_FILE st) \<and> is_file (CONFIG_FILE st)
        \<and> is_file (R2_SYNC_FILE st) \<and> is_file (LOCAL_SYNC_FILE st) \<longrightarrow>
        (should_restore_from_r2 st \<longleftrightarrow>
           (\<exists>a b. marker_value (R2_SYNC_FILE st) = Some a
                  \<and> marker_value (LOCAL_SYNC_FILE st) = Some b \<and> a > b))
        \<and> (should_restore_from_r2 st \<longrightarrow>
             CONFIG_FILE (disk_after (restore st)) = R2_CONFIG_FILE st))
   \<and> (is_file (R2_CONFIG_FILE st) \<and> is_file (CONFIG_FILE st)
        \<and> \<not> (is_file (R2_SYNC_FILE st) \<and> is_file (LOCAL_SYNC_FILE st)) \<longrightarrow>
        \<not> should_restore_from_r2 st \<and> restore st = Inr st)
   \<and> (\<not> should_restore_from_r2 st \<longrightarrow> restore st = Inr st)
   \<and> (should_restore_from_r2 st \<longrightarrow>
        (\<exists>es. map_of (backup st) ''clawdbot'' = Some (Dir es)
           \<and> (\<forall>n. n \<noteq> ''skills'' \<longrightarrow>
                 map_of (config (disk_after (restore st))) n = map_of (cp_glob es (config st)) n)))"
proof -
  have untouched: "restore st = Inr st" if "\<not> should_restore_from_r2 st"
    using that by (simp add: restore_def)
  have no_backup: "\<not> should_restore_from_r2 st" if "\<not> is_file (R2_CONFIG_FILE st)"
    using that by (simp add: should_restore_from_r2_def)
  have no_local: "should_restore_from_r2 st"
    if "is_file (R2_CONFIG_FILE st) \<and> \<not> is_file (CONFIG_FILE st)"
    using that by (simp add: should_restore_from_r2_def)
  have no_local_copied: "CONFIG_FILE (disk_after (restore st)) = R2_CONFIG_FILE st"
    if "is_file (R2_CONFIG_FILE st) \<and> \<not> is_file (CONFIG_FILE st)" and "CONFIG_FILE st = None"
    using that no_local by (intro restore_config_file) (simp_all add: is_dir_def)
  have markers: "should_restore_from_r2 st \<longleftrightarrow>
           (\<exists>a b. marker_value (R2_SYNC_FILE st) = Some a
                  \<and> marker_value (LOCAL_SYNC_FILE st) = Some b \<and> a > b)"
    if "is_file (R2_CONFIG_FILE st) \<and> is_file (CONFIG_FILE st)
        \<and> is_file (R2_SYNC_FILE st) \<and> is_file (LOCAL_SYNC_FILE st)"
    using that by (simp add: should_restore_markers)
  have newer_copied: "CONFIG_FILE (disk_after (restore st)) = R2_CONFIG_FILE st"
    if "is_file (CONFIG_FILE st)" and "should_restore_from_r2 st"
    using that by (intro restore_config_file) (auto simp: is_file_iff is_dir_def)
  have marker_missing: "\<not> should_restore_from_r2 st"
    if "is_file (R2_CONFIG_FILE st) \<and> is_file (CONFIG_FILE st)
        \<and> \<not> (is_file (R2_SYNC_FILE st) \<and> is_file (LOCAL_SYNC_FILE st))"
    using that by (auto simp: should_restore_from_r2_def)
  have copied: "\<exists>es. map_of (backup st) ''clawdbot'' = Some (Dir es)
           \<and> (\<forall>n. n \<noteq> ''skills'' \<longrightarrow>
                 map_of (config (disk_after (restore st))) n = map_of (cp_glob es (config st)) n)"
    if "should_restore_from_r2 st"
  proof -
    from that obtain es where es: "map_of (backup st) ''clawdbot'' = Some (Dir es)"
      using should_restore_r2_config_dir by blast
    then have "restore_config st = cp_glob es (config st)"
      by (simp add: restore_config_def)
    with that es show ?thesis
      by (simp add: restore_disk_other)
  qed
  show ?thesis
    using untouched no_backup no_local no_local_copied markers newer_copied marker_missing copied
    by blast
qed

theorem restore_decision_witness:
  "\<not> is_file (R2_CONFIG_FILE fs_no_backup) \<and> restore fs_no_backup = Inr fs_no_backup
   \<and> is_file (R2_CONFIG_FILE fs_no_local) \<and> CONFIG_FILE fs_no_local = None
   \<and> marker_value (R2_SYNC_FILE fs_no_local) = Some 5
   \<and> marker_value (LOCAL_SYNC_FILE fs_no_local) = Some 9
   \<and> should_restore_from_r2 fs_no_local
   \<and> CONFIG_FILE (disk_after (restore fs_no_local)) = Some (File ''{\"a\":1}'')
   \<and> is_file (R2_CONFIG_FILE fs_remote_newer) \<and> is_file (CONFIG_FILE fs_remote_newer)
   \<and> is_file (R2_SYNC_FILE fs_remote_newer) \<and> is_file (LOCAL_SYNC_FILE fs_remote_newer)
   \<and> marker_value (R2_SYNC_FILE fs_remote_newer) = Some 1700000100
   \<and> marker_value (LOCAL_SYNC_FILE fs_remote_newer) = Some 1700000000
   \<and> should_restore_from_r2 fs_remote_newer
   \<and> CONFIG_FILE fs_remote_newer = Some (File ''{}'')
   \<and> CONFIG_FILE (disk_after (restore fs_remote_newer)) = Some (File ''{\"a\":1}'')
   \<and> is_file (R2_CONFIG_FILE fs_same_age) \<and> is_file (CONFIG_FILE fs_same_age)
   \<and> is_file (R2_SYNC_FILE fs_same_age) \<and> is_file (LOCAL_SYNC_FILE fs_same_age)
   \<and> marker_value (R2_SYNC_FILE fs_same_age) = Some 1700000000
   \<and> marker_value (LOCAL_SYNC_FILE fs_same_age) = Some 1700000000
   \<and> \<not> should_restore_from_r2 fs_same_age \<and> restore fs_same_age = Inr fs_same_age"
proof -
  have 1: "\<not> is_file (R2_CONFIG_FILE fs_no_backup)"
    by code_simp
  have 2: "is_file (R2_CONFIG_FILE fs_no_local) \<and> \<not> is_file (CONFIG_FILE fs_no_local)
      \<and> CONFIG_FILE fs_no_local = None
      \<and> R2_CONFIG_FILE fs_no_local = Some (File ''{\"a\":1}'')
      \<and> marker_value (R2_SYNC_FILE fs_no_local) = Some 5
      \<and> marker_value (LOCAL_SYNC_FILE fs_no_local) = Some 9"
    by code_simp
  have 3: "is_file (R2_CONFIG_FILE fs_remote_newer) \<and> is_file (CONFIG_FILE fs_remote_newer)
      \<and> is_file (R2_SYNC_FILE fs_remote_newer) \<and> is_file (LOCAL_SYNC_FILE fs_remote_newer)
      \<and> CONFIG_FILE fs_remote_newer = Some (File ''{}'')
      \<and> R2_CONFIG_FILE fs_remote_newer = Some (File ''{\"a\":1}'')
      \<and> marker_value (R2_SYNC_FILE fs_remote_newer) = Some 1700000100
      \<and> marker_value (LOCAL_SYNC_FILE fs_remote_newer) = Some 1700000000"
    by code_simp
  have 4: "is_file (R2_CONFIG_FILE fs_same_age) \<and> is_file (CONFIG_FILE fs_same_age)
      \<and> is_file (R2_SYNC_FILE fs_same_age) \<and> is_file (LOCAL_SYNC_FILE fs_same_age)
      \<and> marker_value (R2_SYNC_FILE fs_same_age) = Some 1700000000
      \<and> marker_value (LOCAL_SYNC_FILE fs_same_age) = Some 1700000000"
    by code_simp
  show ?thesis
    using restore_decision [of fs_no_backup] restore_decision [of fs_no_local]
      restore_decision [of fs_remote_newer] restore_decision [of fs_same_age]
      1 2 3 4
    by (simp add: is_file_def)
qed

subsection \<open>What the restore copies\<close>

text \<open>
  Claim C8, as amended. \<open>cp -r "$src/"* "$dst/"\<close> copies the top-level entries of the source
  whose names do not start with a dot, each over what its name leads to in the destination,
  and leaves every other name of the destination as it was. A file copied to a name that
  leads to no directory is there afterwards; a file is not put over a directory, nor a
  directory over a file; a directory copied to a name that leads to no file is merged into
  what was there, every entry of it, hidden ones included, copied in the same way.

  When the decision is to restore, the backed-up config directory is there and is copied
  into the local one in that way, whatever the backup holds of skills; the copy has been made
  also when the step later stops the script. The skills step runs when the backed-up skills
  directory exists and its listing prints something, for which it is enough that one of its
  names holds a character other than a newline, and it does not run when that directory is
  absent or has no entry. When it does not run, the restore step is the copy of the config
  directory alone. When it runs, \<open>mkdir -p\<close> stops the script if \<open>skills\<close> is a file in the
  local config directory; otherwise the backed-up skills are copied, in the way above, into
  the local skills directory, which is created if it was missing.
\<close>

theorem restore_copies:
  "(map_of src n = Some x \<and> visible n \<longrightarrow>
      map_of (cp_glob src dst) n = Some (cp_node x (map_of dst n)))
   \<and> (\<not> visible n \<or> map_of src n = None \<longrightarrow> map_of (cp_glob src dst) n = map_of dst n)
   \<and> (\<not> is_dir d \<longrightarrow> cp_node (File c) d = File c)
   \<and> cp_node (File c) (Some (Dir ds)) = Dir ds
   \<and> cp_node (Dir sub) (Some (File c)) = File c
   \<and> (\<not> is_file d \<longrightarrow>
        (\<exists>ds'. cp_node (Dir sub) d = Dir ds'
           \<and> (\<forall>m y. map_of sub m = Some y \<longrightarrow> map_of ds' m = Some (cp_node y (child d m)))
           \<and> (\<forall>m. map_of sub m = None \<longrightarrow> map_of ds' m = child d m)))
   \<and> (should_restore_from_r2 st \<longrightarrow>
        (\<exists>es. map_of (backup st) ''clawdbot'' = Some (Dir es)
           \<and> (\<forall>m. m \<noteq> ''skills'' \<longrightarrow>
                 map_of (config (disk_after (restore st))) m = map_of (cp_glob es (config st)) m)
           \<and> (\<not> is_dir (map_of (backup st) ''skills'') \<or> map_of (backup st) ''skills'' = Some (Dir [])
                \<longrightarrow> \<not> r2_skills_nonempty st)
           \<and> ((\<exists>ss name y ch. map_of (backup st) ''skills'' = Some (Dir ss) \<and> (name, y) \<in> set ss
                    \<and> ch \<in> set name \<and> ch \<noteq> CHR 0x0A)
                \<longrightarrow> r2_skills_nonempty st)
           \<and> (\<not> r2_skills_nonempty st \<longrightarrow>
                restore st = Inr (st\<lparr>config := cp_glob es (config st)\<rparr>))
           \<and> (r2_skills_nonempty st \<longrightarrow>
                (\<exists>ss. map_of (backup st) ''skills'' = Some (Dir ss) \<and> ss \<noteq> []
                   \<and> restore st =
                       (case map_of (cp_glob es (config st)) ''skills'' of
                          Some (File c) \<Rightarrow> Inl (MkdirFailed, st\<lparr>config := cp_glob es (config st)\<rparr>)
                        | Some (Dir ds) \<Rightarrow>
                            Inr (st\<lparr>config := AList.update ''skills'' (Dir (cp_glob ss ds))
                                                (cp_glob es (config st))\<rparr>)
                        | None \<Rightarrow>
                            Inr (st\<lparr>config := AList.update ''skills'' (Dir (cp_glob ss []))
                                                (cp_glob es (config st))\<rparr>))))))"
proof -
  have copied: "map_of (cp_glob src dst) n = Some (cp_node x (map_of dst n))"
    if "map_of src n = Some x \<and> visible n"
    using that by (simp add: cp_glob_entry)
  have kept: "map_of (cp_glob src dst) n = map_of dst n"
    if "\<not> visible n \<or> map_of src n = None"
    using that by (rule cp_glob_other)
  have file_copied: "cp_node (File c) d = File c" if "\<not> is_dir d"
    using that by (rule cp_node_file)
  have clash: "cp_node (File c) (Some (Dir ds)) = Dir ds \<and> cp_node (Dir sub) (Some (File c)) = File c"
    by simp
  have merged: "\<exists>ds'. cp_node (Dir sub) d = Dir ds'
           \<and> (\<forall>m y. map_of sub m = Some y \<longrightarrow> map_of ds' m = Some (cp_node y (child d m)))
           \<and> (\<forall>m. map_of sub m = None \<longrightarrow> map_of ds' m = child d m)"
    if "\<not> is_file d"
    using that by (rule cp_node_dir)
  have step: "\<exists>es. map_of (backup st) ''clawdbot'' = Some (Dir es)
           \<and> (\<forall>m. m \<noteq> ''skills'' \<longrightarrow>
                 map_of (config (disk_after (restore st))) m = map_of (cp_glob es (config st)) m)
           \<and> (\<not> is_dir (map_of (backup st) ''skills'') \<or> map_of (backup st) ''skills'' = Some (Dir [])
                \<longrightarrow> \<not> r2_skills_nonempty st)
           \<and> ((\<exists>ss name y ch. map_of (backup st) ''skills'' = Some (Dir ss) \<and> (name, y) \<in> set ss
                    \<and> ch \<in> set name \<and> ch \<noteq> CHR 0x0A)
                \<longrightarrow> r2_skills_nonempty st)
           \<and> (\<not> r2_skills_nonempty st \<longrightarrow>
                restore st = Inr (st\<lparr>config := cp_glob es (config st)\<rparr>))
           \<and> (r2_skills_nonempty st \<longrightarrow>
                (\<exists>ss. map_of (backup st) ''skills'' = Some (Dir ss) \<and> ss \<noteq> []
                   \<and> restore st =
                       (case map_of (cp_glob es (config st)) ''skills'' of
                          Some (File c) \<Rightarrow> Inl (MkdirFailed, st\<lparr>config := cp_glob es (config st)\<rparr>)
                        | Some (Dir ds) \<Rightarrow>
                            Inr (st\<lparr>config := AList.update ''skills'' (Dir (cp_glob ss ds))
                                                (cp_glob es (config st))\<rparr>)
                        | None \<Rightarrow>
                            Inr (st\<lparr>config := AList.update ''skills'' (Dir (cp_glob ss []))
                                                (cp_glob es (config st))\<rparr>))))"
    if go: "should_restore_from_r2 st"
  proof -
    from go obtain es where es: "map_of (backup st) ''clawdbot'' = Some (Dir es)"
      using should_restore_r2_config_dir by blast
    then have cfg: "restore_config st = cp_glob es (config st)"
      by (simp add: restore_config_def)
    have others: "\<forall>m. m \<noteq> ''skills'' \<longrightarrow>
        map_of (config (disk_after (restore st))) m = map_of (cp_glob es (config st)) m"
      using go cfg by (simp add: restore_disk_other)
    have skipped: "\<not> r2_skills_nonempty st"
      if "\<not> is_dir (map_of (backup st) ''skills'') \<or> map_of (backup st) ''skills'' = Some (Dir [])"
      using that by (auto simp: r2_skills_nonempty_iff is_dir_iff ls_A_Nil cat_subst_def)
    have listed: "r2_skills_nonempty st"
      if "\<exists>ss name y ch. map_of (backup st) ''skills'' = Some (Dir ss) \<and> (name, y) \<in> set ss
            \<and> ch \<in> set name \<and> ch \<noteq> CHR 0x0A"
    proof -
      from that obtain ss name y ch
        where ss: "map_of (backup st) ''skills'' = Some (Dir ss)"
          and entry: "(name, y) \<in> set ss" "ch \<in> set name" "ch \<noteq> CHR 0x0A"
        by blast
      from entry have "cat_subst (ls_A ss) \<noteq> []"
        by (rule ls_A_prints)
      with ss show ?thesis
        by (simp add: r2_skills_nonempty_iff)
    qed
    have alone: "restore st = Inr (st\<lparr>config := cp_glob es (config st)\<rparr>)"
      if "\<not> r2_skills_nonempty st"
      using that go cfg by (simp add: restore_def)
    have skills: "\<exists>ss. map_of (backup st) ''skills'' = Some (Dir ss) \<and> ss \<noteq> []
        \<and> restore st =
            (case map_of (cp_glob es (config st)) ''skills'' of
               Some (File c) \<Rightarrow> Inl (MkdirFailed, st\<lparr>config := cp_glob es (config st)\<rparr>)
             | Some (Dir ds) \<Rightarrow>
                 Inr (st\<lparr>config := AList.update ''skills'' (Dir (cp_glob ss ds))
                                     (cp_glob es (config st))\<rparr>)
             | None \<Rightarrow>
                 Inr (st\<lparr>config := AList.update ''skills'' (Dir (cp_glob ss []))
                                     (cp_glob es (config st))\<rparr>))"
      if nonempty: "r2_skills_nonempty st"
    proof -
      from nonempty obtain ss
        where ss: "map_of (backup st) ''skills'' = Some (Dir ss)" "ss \<noteq> []"
        using r2_skills_nonempty_entries by blast
      have "restore st =
            (case map_of (cp_glob es (config st)) ''skills'' of
               Some (File c) \<Rightarrow> Inl (MkdirFailed, st\<lparr>config := cp_glob es (config st)\<rparr>)
             | Some (Dir ds) \<Rightarrow>
                 Inr (st\<lparr>config := AList.update ''skills'' (Dir (cp_glob ss ds))
                                     (cp_glob es (config st))\<rparr>)
             | None \<Rightarrow>
                 Inr (st\<lparr>config := AList.update ''skills'' (Dir (cp_glob ss []))
                                     (cp_glob es (config st))\<rparr>))"
        using go nonempty cfg ss(1)
        by (simp add: restore_def restore_skills_def split: option.splits node.splits)
      with ss show ?thesis by blast
    qed
    from es others skipped listed alone skills show ?thesis by blast
  qed
  from copied kept file_copied clash merged step show ?thesis
    by blast
qed

theorem restore_copies_witness:
  "map_of (cp_glob [(''clawdbot.json'', File ''{\"a\":1}''), (''.hidden'', File ''h''),
                    (''agents'', Dir [(''main.md'', File ''new'')])]
             [(''skills'', Dir [(''weather'', File ''local'')]),
              (''agents'', Dir [(''notes.md'', File ''mine'')])]) ''agents''
     = Some (Dir [(''notes.md'', File ''mine''), (''main.md'', File ''new'')])
   \<and> map_of (cp_glob [(''clawdbot.json'', File ''{\"a\":1}''), (''.hidden'', File ''h''),
                    (''agents'', Dir [(''main.md'', File ''new'')])]
             [(''skills'', Dir [(''weather'', File ''local'')]),
              (''agents'', Dir [(''notes.md'', File ''mine'')])]) ''.hidden''
     = None
   \<and> cp_node (File ''new'') (Some (File ''old'')) = File ''new''
   \<and> cp_node (File ''new'') None = File ''new''
   \<and> should_restore_from_r2 fs_skills_absent
   \<and> map_of (backup fs_skills_absent) ''skills'' = Some (Dir [])
   \<and> restore fs_skills_absent =
       Inr (fs_skills_absent\<lparr>config :=
         [(''skills'', Dir [(''weather'', File ''local'')]),
          (''agents'', Dir [(''notes.md'', File ''mine''), (''main.md'', File ''new'')]),
          (''clawdbot.json'', File ''{\"a\":1}'')]\<rparr>)
   \<and> should_restore_from_r2 fs_skills_present \<and> r2_skills_nonempty fs_skills_present
   \<and> restore fs_skills_present =
       Inr (fs_skills_present\<lparr>config :=
         [(''skills'', Dir [(''weather'', File ''remote''), (''mine'', File ''kept'')]),
          (''clawdbot.json'', File ''{\"a\":1}'')]\<rparr>)
   \<and> should_restore_from_r2 fs_skills_is_file \<and> r2_skills_nonempty fs_skills_is_file
   \<and> restore fs_skills_is_file =
       Inl (MkdirFailed, fs_skills_is_file\<lparr>config :=
         [(''skills'', File ''not a directory''), (''clawdbot.json'', File ''{\"a\":1}'')]\<rparr>)"
proof -
  let ?src = "[(''clawdbot.json'', File ''{\"a\":1}''), (''.hidden'', File ''h''),
               (''agents'', Dir [(''main.md'', File ''new'')])]"
  let ?dst = "[(''skills'', Dir [(''weather'', File ''local'')]),
               (''agents'', Dir [(''notes.md'', File ''mine'')])]"
  have 1: "should_restore_from_r2 fs_skills_absent
      \<and> map_of (backup fs_skills_absent) ''skills'' = Some (Dir [])
      \<and> map_of (backup fs_skills_absent) ''clawdbot'' = Some (Dir ?src)
      \<and> config fs_skills_absent = ?dst"
    by code_simp
  have 2: "map_of ?src ''agents'' = Some (Dir [(''main.md'', File ''new'')]) \<and> visible ''agents''
      \<and> map_of ?dst ''agents'' = Some (Dir [(''notes.md'', File ''mine'')])
      \<and> cp_node (Dir [(''main.md'', File ''new'')]) (Some (Dir [(''notes.md'', File ''mine'')]))
          = Dir [(''notes.md'', File ''mine''), (''main.md'', File ''new'')]
      \<and> \<not> visible ''.hidden'' \<and> map_of ?dst ''.hidden'' = None
      \<and> \<not> is_dir (Some (File ''old'')) \<and> \<not> is_dir None"
    by code_simp
  have 3: "cp_glob ?src ?dst =
         [(''skills'', Dir [(''weather'', File ''local'')]),
          (''agents'', Dir [(''notes.md'', File ''mine''), (''main.md'', File ''new'')]),
          (''clawdbot.json'', File ''{\"a\":1}'')]"
    by code_simp
  have 4: "should_restore_from_r2 fs_skills_present
      \<and> map_of (backup fs_skills_present) ''clawdbot'' = Some (Dir [(''clawdbot.json'', File ''{\"a\":1}'')])
      \<and> map_of (backup fs_skills_present) ''skills''
            = Some (Dir [(''weather'', File ''remote''), (''.cache'', File ''c'')])
      \<and> (''weather'', File ''remote'') \<in> set [(''weather'', File ''remote''), (''.cache'', File ''c'')]
      \<and> CHR ''w'' \<in> set ''weather'' \<and> CHR ''w'' \<noteq> CHR 0x0A"
    by code_simp
  have 5: "cp_glob [(''clawdbot.json'', File ''{\"a\":1}'')] (config fs_skills_present)
         = [(''skills'', Dir [(''weather'', File ''local''), (''mine'', File ''kept'')]),
            (''clawdbot.json'', File ''{\"a\":1}'')]
      \<and> cp_glob [(''weather'', File ''remote''), (''.cache'', File ''c'')]
             [(''weather'', File ''local''), (''mine'', File ''kept'')]
           = [(''weather'', File ''remote''), (''mine'', File ''kept'')]"
    by code_simp
  have 6: "should_restore_from_r2 fs_skills_is_file
      \<and> map_of (backup fs_skills_is_file) ''clawdbot'' = Some (Dir [(''clawdbot.json'', File ''{\"a\":1}'')])
      \<and> map_of (backup fs_skills_is_file) ''skills'' = Some (Dir [(''weather'', File ''remote'')])
      \<and> (''weather'', File ''remote'') \<in> set [(''weather'', File ''remote'')]
      \<and> CHR ''w'' \<in> set ''weather'' \<and> CHR ''w'' \<noteq> CHR 0x0A
      \<and> cp_glob [(''clawdbot.json'', File ''{\"a\":1}'')] (config fs_skills_is_file)
          = [(''skills'', File ''not a directory''), (''clawdbot.json'', File ''{\"a\":1}'')]"
    by code_simp
  have a: "map_of (cp_glob ?src ?dst) ''agents''
      = Some (Dir [(''notes.md'', File ''mine''), (''main.md'', File ''new'')])"
    using restore_copies [where src = ?src and dst = ?dst and n = "''agents''"
        and x = "Dir [(''main.md'', File ''new'')]"] 2
    by simp
  have b: "map_of (cp_glob ?src ?dst) ''.hidden'' = None"
    using restore_copies [where src = ?src and dst = ?dst and n = "''.hidden''"] 2
    by simp
  have c: "cp_node (File ''new'') (Some (File ''old'')) = File ''new''
      \<and> cp_node (File ''new'') None = File ''new''"
    using restore_copies [where c = "''new''" and d = "Some (File ''old'')"]
      restore_copies [where c = "''new''" and d = None] 2
    by simp
  have d: "restore fs_skills_absent =
       Inr (fs_skills_absent\<lparr>config :=
         [(''skills'', Dir [(''weather'', File ''local'')]),
          (''agents'', Dir [(''notes.md'', File ''mine''), (''main.md'', File ''new'')]),
          (''clawdbot.json'', File ''{\"a\":1}'')]\<rparr>)"
    using restore_copies [where st = fs_skills_absent] 1 3
    by auto
  have e1: "r2_skills_nonempty fs_skills_present"
    using restore_copies [where st = fs_skills_present] 4
    by blast
  have e: "restore fs_skills_present =
       Inr (fs_skills_present\<lparr>config :=
         [(''skills'', Dir [(''weather'', File ''remote''), (''mine'', File ''kept'')]),
          (''clawdbot.json'', File ''{\"a\":1}'')]\<rparr>)"
    using restore_copies [where st = fs_skills_present] 4 5 e1
    by auto
  have f1: "r2_skills_nonempty fs_skills_is_file"
    using restore_copies [where st = fs_skills_is_file] 6
    by blast
  have f: "restore fs_skills_is_file =
       Inl (MkdirFailed, fs_skills_is_file\<lparr>config :=
         [(''skills'', File ''not a directory''), (''clawdbot.json'', File ''{\"a\":1}'')]\<rparr>)"
    using restore_copies [where st = fs_skills_is_file] 6 f1
    by auto
  from a b c d e e1 f f1 1 4 6 show ?thesis
    by simp
qed

text \<open>
  Claim C8 as the specification words it fails twice on one state. The backup holds no
  skills directory, yet the local skill \<open>weather\<close> is overwritten, by the \<open>skills\<close> entry of
  the backed-up config directory; and the entry \<open>.env\<close> of the backed-up config directory is
  not copied.
\<close>

theorem restore_copies_counterexample:
  "should_restore_from_r2 fs_config_holds_skills
   \<and> map_of (backup fs_config_holds_skills) ''skills'' = None
   \<and> child (map_of (config fs_config_holds_skills) ''skills'') ''weather'' = Some (File ''local'')
   \<and> child (map_of (config (disk_after (restore fs_config_holds_skills))) ''skills'') ''weather''
       = Some (File ''remote'')
   \<and> child (map_of (backup fs_config_holds_skills) ''clawdbot'') ''.env'' = Some (File ''KEY=1'')
   \<and> map_of (config (disk_after (restore fs_config_holds_skills))) ''.env'' = None
   \<and> restore fs_config_holds_skills =
       Inr (fs_config_holds_skills\<lparr>config :=
         [(''skills'', Dir [(''weather'', File ''remote'')]),
          (''clawdbot.json'', File ''{\"a\":1}'')]\<rparr>)"
  by code_simp

subsection \<open>Provider selection\<close>

lemma choose_provider_cases:
  "choose_provider penv = NativeGateway \<longleftrightarrow> truthy (accountId penv) \<and> truthy (apiKey penv)"
  "choose_provider penv = DirectAnthropic \<longleftrightarrow>
     \<not> (truthy (accountId penv) \<and> truthy (apiKey penv)) \<and> truthy (penv ''ANTHROPIC_API_KEY'')"
  "choose_provider penv = BuiltinDefault \<longleftrightarrow>
     \<not> (truthy (accountId penv) \<and> truthy (apiKey penv)) \<and> \<not> truthy (penv ''ANTHROPIC_API_KEY'')"
  by (simp_all add: choose_provider_def)

text \<open>The providers after the native branch: the two legacy entries deleted, the native one set.\<close>

lemma configure_providers_native:
  assumes "choose_provider penv = NativeGateway"
  shows "map_of (providers (configure_providers penv cfg)) k =
     (if k = ''cloudflare-ai-gateway'' then Some (native_provider_entry penv)
      else if k = ''anthropic'' \<or> k = ''openai'' then None
      else map_of (providers cfg) k)"
  using assms by (simp add: configure_providers_def update_conv' delete_conv')

lemma configure_providers_untouched:
  assumes "choose_provider penv \<noteq> NativeGateway"
  shows "providers (configure_providers penv cfg) = providers cfg"
  using assms by (cases "choose_provider penv") (simp_all add: configure_providers_def)

text \<open>
  Claim C4. The native gateway provider is chosen exactly when an account id and a provider
  key are both set; otherwise the direct Anthropic provider when \<open>ANTHROPIC_API_KEY\<close> is
  set; otherwise the built-in default. The primary model written to the config follows the
  choice. When the native provider is chosen, the config written back holds no
  \<open>models.providers.anthropic\<close> and no \<open>models.providers.openai\<close>, holds the native
  provider's entry, and keeps every other provider; in the other two cases the providers
  are not touched.
\<close>

theorem provider_precedence:
  "(choose_provider penv = NativeGateway \<longleftrightarrow> truthy (accountId penv) \<and> truthy (apiKey penv))
   \<and> (choose_provider penv = DirectAnthropic \<longleftrightarrow>
        \<not> (truthy (accountId penv) \<and> truthy (apiKey penv)) \<and> truthy (penv ''ANTHROPIC_API_KEY''))
   \<and> (choose_provider penv = BuiltinDefault \<longleftrightarrow>
        \<not> (truthy (accountId penv) \<and> truthy (apiKey penv)) \<and> \<not> truthy (penv ''ANTHROPIC_API_KEY''))
   \<and> primary (configure_providers penv cfg) =
        Some (JStr (if truthy (accountId penv) \<and> truthy (apiKey penv)
                    then or_default (penv ''DEFAULT_MODEL'')
                           ''cloudflare-ai-gateway/google-ai-studio/gemini-2.5-flash''
                    else if truthy (penv ''ANTHROPIC_API_KEY'') then ''anthropic/claude-opus-4-5-20251101''
                    else ''anthropic/claude-opus-4-5''))
   \<and> (truthy (accountId penv) \<and> truthy (apiKey penv) \<longrightarrow>
        map_of (providers (configure_providers penv cfg)) ''anthropic'' = None
        \<and> map_of (providers (configure_providers penv cfg)) ''openai'' = None
        \<and> map_of (providers (configure_providers penv cfg)) ''cloudflare-ai-gateway''
            = Some (native_provider_entry penv)
        \<and> (\<forall>k. k \<noteq> ''anthropic'' \<and> k \<noteq> ''openai'' \<and> k \<noteq> ''cloudflare-ai-gateway'' \<longrightarrow>
              map_of (providers (configure_providers penv cfg)) k = map_of (providers cfg) k))
   \<and> (\<not> (truthy (accountId penv) \<and> truthy (apiKey penv)) \<longrightarrow>
        providers (configure_providers penv cfg) = providers cfg)"
proof (intro conjI impI allI)
  assume n: "truthy (accountId penv) \<and> truthy (apiKey penv)"
  then have c: "choose_provider penv = NativeGateway"
    by (simp add: choose_provider_cases)
  show "map_of (providers (configure_providers penv cfg)) ''anthropic'' = None"
    and "map_of (providers (configure_providers penv cfg)) ''openai'' = None"
    and "map_of (providers (configure_providers penv cfg)) ''cloudflare-ai-gateway''
            = Some (native_provider_entry penv)"
    using c by (simp_all add: configure_providers_native)
  show "map_of (providers (configure_providers penv cfg)) k = map_of (providers cfg) k"
    if "k \<noteq> ''anthropic'' \<and> k \<noteq> ''openai'' \<and> k \<noteq> ''cloudflare-ai-gateway''" for k
    using c that by (simp add: configure_providers_native)
next
  assume "\<not> (truthy (accountId penv) \<and> truthy (apiKey penv))"
  then have "choose_provider penv \<noteq> NativeGateway"
    by (simp add: choose_provider_cases)
  then show "providers (configure_providers penv cfg) = providers cfg"
    by (rule configure_providers_untouched)
next
  show "primary (configure_providers penv cfg) =
        Some (JStr (if truthy (accountId penv) \<and> truthy (apiKey penv)
                    then or_default (penv ''DEFAULT_MODEL'')
                           ''cloudflare-ai-gateway/google-ai-studio/gemini-2.5-flash''
                    else if truthy (penv ''ANTHROPIC_API_KEY'') then ''anthropic/claude-opus-4-5-20251101''
                    else ''anthropic/claude-opus-4-5''))"
    by (simp add: configure_providers_def choose_provider_def)
qed (simp_all add: choose_provider_cases)

theorem provider_precedence_witness:
  "truthy (accountId env_native_and_direct) \<and> truthy (apiKey env_native_and_direct)
   \<and> truthy (env_native_and_direct ''ANTHROPIC_API_KEY'')
   \<and> choose_provider env_native_and_direct = NativeGateway
   \<and> providers (configure_providers env_native_and_direct cfg_with_legacy_providers)
       = [(''ollama'', JObj [(''baseUrl'', JStr ''http://localhost:11434'')]),
          (''cloudflare-ai-gateway'',
             JObj [(''accountId'', JStr ''acct-1''), (''gatewayId'', JStr ''moltbot-gateway''),
                   (''apiKey'', JStr ''provider-key'')])]
   \<and> primary (configure_providers env_native_and_direct cfg_with_legacy_providers)
       = Some (JStr ''cloudflare-ai-gateway/google-ai-studio/gemini-2.5-flash'')
   \<and> \<not> (truthy (accountId env_direct_only) \<and> truthy (apiKey env_direct_only))
   \<and> choose_provider env_direct_only = DirectAnthropic
   \<and> providers (configure_providers env_direct_only cfg_with_legacy_providers)
       = providers cfg_with_legacy_providers
   \<and> primary (configure_providers env_direct_only cfg_with_legacy_providers)
       = Some (JStr ''anthropic/claude-opus-4-5-20251101'')
   \<and> choose_provider Map.empty = BuiltinDefault
   \<and> primary (configure_providers Map.empty cfg_with_legacy_providers)
       = Some (JStr ''anthropic/claude-opus-4-5'')"
proof -
  have 1: "truthy (accountId env_native_and_direct) \<and> truthy (apiKey env_native_and_direct)
      \<and> truthy (env_native_and_direct ''ANTHROPIC_API_KEY'')"
    by code_simp
  have 2: "\<not> (truthy (accountId env_direct_only) \<and> truthy (apiKey env_direct_only))
      \<and> truthy (env_direct_only ''ANTHROPIC_API_KEY'')"
    by code_simp
  have 3: "\<not> (truthy (accountId Map.empty) \<and> truthy (apiKey Map.empty))
      \<and> \<not> truthy (Map.empty ''ANTHROPIC_API_KEY'')"
    by code_simp
  have 4: "providers (configure_providers env_native_and_direct cfg_with_legacy_providers)
       = [(''ollama'', JObj [(''baseUrl'', JStr ''http://localhost:11434'')]),
          (''cloudflare-ai-gateway'',
             JObj [(''accountId'', JStr ''acct-1''), (''gatewayId'', JStr ''moltbot-gateway''),
                   (''apiKey'', JStr ''provider-key'')])]"
    by code_simp
  have 5: "or_default (env_native_and_direct ''DEFAULT_MODEL'')
             ''cloudflare-ai-gateway/google-ai-studio/gemini-2.5-flash''
           = ''cloudflare-ai-gateway/google-ai-studio/gemini-2.5-flash''"
    by code_simp
  show ?thesis
    using provider_precedence [of env_native_and_direct cfg_with_legacy_providers]
      provider_precedence [of env_direct_only cfg_with_legacy_providers]
      provider_precedence [of Map.empty cfg_with_legacy_providers]
      1 2 3 4 5
    by simp
qed

end
